theory Spec2Isabelle
  imports Main "HOL-Library.Char_ord" "HOL-Library.List_Lexorder" "HOL-Library.Product_Lexorder"
    "HOL-Library.Monad_Syntax"
begin

section \<open>The element tree handed to the parser\<close>

text \<open>
  \<^verbatim>\<open>ET.parse\<close> turns the file into a tree of elements. An element carries its tag (for a
  namespace-qualified element the tag reads \<^verbatim>\<open>{uri}local\<close>), its attribute dictionary and
  its child elements in document order. Text content is never read by the program and is
  left out. A character is one code point below 256.
\<close>

datatype elem = Elem (tag: string) (attrib: "(string \<times> string) list") (children: "elem list")

text \<open>\<^verbatim>\<open>Element.iter()\<close>: the element itself and all its descendants, in document order.\<close>

fun iter :: "elem \<Rightarrow> elem list" where
  "iter (Elem t a cs) = Elem t a cs # concat (map iter cs)"

text \<open>
  The path \<^verbatim>\<open>.//TAG\<close> selects every element below the context element whose tag is
  \<^verbatim>\<open>TAG\<close>; the context element itself is skipped (\<^verbatim>\<open>if e is not elem\<close> in the library's
  descendant step).
\<close>

definition descendants :: "elem \<Rightarrow> elem list" where
  "descendants e = concat (map iter (children e))"

text \<open>
  A tag of the path without a prefix is qualified only by a default namespace, the entry of
  the prefix map under the empty key; any other entry of the map leaves it as it is.
\<close>

definition qualify :: "(string \<times> string) list \<Rightarrow> string \<Rightarrow> string" where
  "qualify namespaces t =
     (case map_of namespaces [] of
        None \<Rightarrow> t
      | Some d \<Rightarrow> if d \<noteq> [] then ''{'' @ d @ ''}'' @ t else t)"

definition findall :: "elem \<Rightarrow> string \<Rightarrow> (string \<times> string) list \<Rightarrow> elem list" where
  "findall e t namespaces = filter (\<lambda>x. tag x = qualify namespaces t) (descendants e)"

definition find_first :: "elem \<Rightarrow> string \<Rightarrow> (string \<times> string) list \<Rightarrow> elem option" where
  "find_first e t namespaces =
     (case findall e t namespaces of [] \<Rightarrow> None | x # _ \<Rightarrow> Some x)"

text \<open>\<^verbatim>\<open>Element.get(key)\<close> and \<^verbatim>\<open>Element.get(key, default)\<close>.\<close>

definition get :: "elem \<Rightarrow> string \<Rightarrow> string option" where
  "get e k = map_of (attrib e) k"

definition get_default :: "elem \<Rightarrow> string \<Rightarrow> string \<Rightarrow> string" where
  "get_default e k d = (case map_of (attrib e) k of None \<Rightarrow> d | Some v \<Rightarrow> v)"

text \<open>Truthiness of an optional string: \<^verbatim>\<open>None\<close> and the empty string are false.\<close>

definition truthy :: "string option \<Rightarrow> bool" where
  "truthy v = (case v of None \<Rightarrow> False | Some s \<Rightarrow> s \<noteq> [])"

section \<open>Dictionaries\<close>

text \<open>
  A Python dictionary is an association list with distinct keys in insertion order.
  Assigning to a key that is present replaces its value in place; a new key goes to the end.
\<close>

definition dict_set :: "'k \<Rightarrow> 'v \<Rightarrow> ('k \<times> 'v) list \<Rightarrow> ('k \<times> 'v) list" where
  "dict_set k v d = (if k \<in> fst ` set d then map (\<lambda>(k', v'). if k' = k then (k', v) else (k', v')) d
                     else d @ [(k, v)])"

definition dict_update :: "('k \<times> 'v) list \<Rightarrow> ('k \<times> 'v) list \<Rightarrow> ('k \<times> 'v) list" where
  "dict_update d items = foldl (\<lambda>acc (k, v). dict_set k v acc) d items"

section \<open>Data model\<close>

record port =
  name :: string
  "datatype" :: string
  precision :: "int option"
  scale :: "int option"
  nullable :: string
  port_type :: string
  expression :: "string option"

record transformation =
  name :: string
  type :: string
  description :: "string option"
  ports :: "port list"
  properties :: "(string \<times> string) list"

record connection =
  from_transformation :: string
  from_port :: string
  to_transformation :: string
  to_port :: string

record mapping =
  name :: string
  description :: "string option"
  folder :: "string option"
  transformations :: "transformation list"
  connections :: "connection list"

section \<open>Errors\<close>

text \<open>
  \<^verbatim>\<open>ValueError\<close> carries its message. \<^verbatim>\<open>OSError\<close> and \<^verbatim>\<open>ParseError\<close> are what
  \<^verbatim>\<open>ET.parse\<close> and \<^verbatim>\<open>open\<close> raise for a file that cannot be opened or is not
  well-formed XML; \<^verbatim>\<open>AttributeError\<close> is a method call on \<^verbatim>\<open>None\<close>.
\<close>

datatype error = ValueError string | OSError | ParseError | AttributeError

section \<open>Parser\<close>

text \<open>The table \<^verbatim>\<open>TRANSFORMATION_TYPES\<close> of the parser class.\<close>

definition TRANSFORMATION_TYPES :: "(string \<times> string) list" where
  "TRANSFORMATION_TYPES =
     [(''Source Definition'', ''Source Definition''),
      (''Source Qualifier'', ''Source Qualifier''),
      (''Target Definition'', ''Target Definition''),
      (''Expression'', ''Expression''),
      (''Filter'', ''Filter''),
      (''Aggregator'', ''Aggregator''),
      (''Joiner'', ''Joiner''),
      (''Lookup Procedure'', ''Lookup''),
      (''Router'', ''Router''),
      (''Sorter'', ''Sorter''),
      (''Update Strategy'', ''Update Strategy''),
      (''Normalizer'', ''Normalizer''),
      (''Rank'', ''Rank''),
      (''Sequence Generator'', ''Sequence Generator''),
      (''Stored Procedure'', ''Stored Procedure''),
      (''Union'', ''Union'')]"

text \<open>\<^verbatim>\<open>d.get(key, default)\<close> on a dictionary.\<close>

definition dict_get :: "('k \<times> 'v) list \<Rightarrow> 'k \<Rightarrow> 'v \<Rightarrow> 'v" where
  "dict_get d k dflt = (case map_of d k of None \<Rightarrow> dflt | Some v \<Rightarrow> v)"

subsection \<open>The built-in \<^verbatim>\<open>int\<close> on a string\<close>

text \<open>
  \<^verbatim>\<open>int(s)\<close> strips white space at both ends, reads an optional sign and then decimal
  digits, where a single underscore may stand between two digits; anything else raises
  \<^verbatim>\<open>ValueError\<close>. Below code point 256 the decimal digits are \<^verbatim>\<open>0\<close> to \<^verbatim>\<open>9\<close> and the
  white space that \<^verbatim>\<open>int\<close> strips is 9 to 13, 32, 133 and 160 (the separators 28 to 31
  are white space for \<^verbatim>\<open>str.strip\<close> but not for \<^verbatim>\<open>int\<close>, which raises on them). The
  interpreter's optional limit on the number of digits is not part of the model.
\<close>

definition is_space :: "char \<Rightarrow> bool" where
  "is_space c = (let n = (of_char c :: nat) in
     (9 \<le> n \<and> n \<le> 13) \<or> n = 32 \<or> n = 133 \<or> n = 160)"

definition is_digit :: "char \<Rightarrow> bool" where
  "is_digit c = (let n = (of_char c :: nat) in 48 \<le> n \<and> n \<le> 57)"

definition digit_val :: "char \<Rightarrow> nat" where
  "digit_val c = of_char c - 48"

definition strip :: "string \<Rightarrow> string" where
  "strip s = rev (dropWhile is_space (rev (dropWhile is_space s)))"

fun parse_digits :: "string \<Rightarrow> nat \<Rightarrow> nat option" where
  "parse_digits [] acc = Some acc"
| "parse_digits [c] acc =
     (if is_digit c then Some (10 * acc + digit_val c) else None)"
| "parse_digits (c # d # ds) acc =
     (if is_digit c then parse_digits (d # ds) (10 * acc + digit_val c)
      else if c = CHR ''_'' \<and> is_digit d then parse_digits ds (10 * acc + digit_val d)
      else None)"

definition unsigned_int :: "string \<Rightarrow> error + int" where
  "unsigned_int body =
     (case body of
        [] \<Rightarrow> Inl (ValueError ''invalid literal for int()'')
      | d # ds \<Rightarrow>
          if is_digit d then
            (case parse_digits ds (digit_val d) of
               None \<Rightarrow> Inl (ValueError ''invalid literal for int()'')
             | Some n \<Rightarrow> Inr (int n))
          else Inl (ValueError ''invalid literal for int()''))"

definition py_int :: "string \<Rightarrow> error + int" where
  "py_int s =
     (case strip s of
        [] \<Rightarrow> Inl (ValueError ''invalid literal for int()'')
      | c # cs \<Rightarrow>
          if c = CHR ''-'' then map_sum id uminus (unsigned_int cs)
          else if c = CHR ''+'' then unsigned_int cs
          else unsigned_int (c # cs))"

text \<open>\<^verbatim>\<open>_safe_int\<close>: \<^verbatim>\<open>None\<close> stays \<^verbatim>\<open>None\<close>; an exception of \<^verbatim>\<open>int\<close> is caught.\<close>

definition safe_int :: "string option \<Rightarrow> int option" where
  "safe_int v =
     (case v of
        None \<Rightarrow> None
      | Some s \<Rightarrow> (case py_int s of Inl _ \<Rightarrow> None | Inr n \<Rightarrow> Some n))"

subsection \<open>Ports, properties, transformations, connections\<close>

definition parse_port :: "elem \<Rightarrow> port" where
  "parse_port port_elem =
     \<lparr> port.name = get_default port_elem ''NAME'' ''Unknown'',
       datatype = get_default port_elem ''DATATYPE'' ''string'',
       precision = safe_int (get port_elem ''PRECISION''),
       scale = safe_int (get port_elem ''SCALE''),
       nullable = get_default port_elem ''NULLABLE'' ''NOTNULL'',
       port_type = get_default port_elem ''PORTTYPE'' ''INPUT'',
       expression = get port_elem ''EXPRESSION'' \<rparr>"

definition parse_ports :: "elem \<Rightarrow> port list" where
  "parse_ports trans_elem = map parse_port (findall trans_elem ''TRANSFORMFIELD'' [])"

text \<open>
  \<^verbatim>\<open>_parse_properties\<close>: the loop over the \<^verbatim>\<open>TABLEATTRIBUTE\<close> elements, each one
  assigning to the dictionary when both its attributes are truthy.
\<close>

definition property_step :: "(string \<times> string) list \<Rightarrow> elem \<Rightarrow> (string \<times> string) list" where
  "property_step props prop_elem =
     (let prop_name = get prop_elem ''NAME''; prop_value = get prop_elem ''VALUE''
      in if truthy prop_name \<and> truthy prop_value
         then dict_set (the prop_name) (the prop_value) props
         else props)"

definition parse_properties :: "elem \<Rightarrow> (string \<times> string) list" where
  "parse_properties trans_elem =
     foldl property_step (dict_update [] (attrib trans_elem))
       (findall trans_elem ''TABLEATTRIBUTE'' [])"

definition parse_transformation :: "elem \<Rightarrow> transformation" where
  "parse_transformation trans_elem =
     (let trans_type = get_default trans_elem ''TYPE'' ''Unknown'';
          trans_name = get_default trans_elem ''NAME'' ''Unknown'';
          trans_desc = get trans_elem ''DESCRIPTION''
      in \<lparr> transformation.name = trans_name,
           type = dict_get TRANSFORMATION_TYPES trans_type trans_type,
           transformation.description = trans_desc,
           ports = parse_ports trans_elem,
           properties = parse_properties trans_elem \<rparr>)"

definition parse_transformations :: "elem \<Rightarrow> transformation list" where
  "parse_transformations mapping_elem =
     map parse_transformation (findall mapping_elem ''TRANSFORMATION'' [])"

definition connection_step :: "connection list \<Rightarrow> elem \<Rightarrow> connection list" where
  "connection_step conns conn_elem =
     (let from_field = get conn_elem ''FROMFIELD'';
          from_instance = get conn_elem ''FROMINSTANCE'';
          to_field = get conn_elem ''TOFIELD'';
          to_instance = get conn_elem ''TOINSTANCE''
      in if list_all truthy [from_field, from_instance, to_field, to_instance]
         then conns @
              [\<lparr> from_transformation = the from_instance, from_port = the from_field,
                 to_transformation = the to_instance, to_port = the to_field \<rparr>]
         else conns)"

definition parse_connections :: "elem \<Rightarrow> connection list" where
  "parse_connections mapping_elem =
     foldl connection_step [] (findall mapping_elem ''CONNECTOR'' [])"

subsection \<open>The parser object and \<^verbatim>\<open>parse\<close>\<close>

text \<open>
  The parser object keeps the path and, once \<^verbatim>\<open>parse\<close> has run, the tree, its root and
  the namespace map. The files are a function from a path to what \<^verbatim>\<open>ET.parse\<close> does with
  it: an error, or the root element of the tree.
\<close>

record parser =
  xml_path :: string
  tree :: "elem option"
  root :: "elem option"
  namespace :: "(string \<times> string) list"

definition init :: "string \<Rightarrow> parser" where
  "init path = \<lparr> xml_path = path, tree = None, root = None, namespace = [] \<rparr>"

text \<open>\<^verbatim>\<open>tag.split('}')[0].strip('{')\<close>\<close>

definition strip_char :: "char \<Rightarrow> string \<Rightarrow> string" where
  "strip_char c s = rev (dropWhile (\<lambda>x. x = c) (rev (dropWhile (\<lambda>x. x = c) s)))"

definition namespace_of_tag :: "string \<Rightarrow> string" where
  "namespace_of_tag t = strip_char CHR ''{'' (takeWhile (\<lambda>x. x \<noteq> CHR ''}'') t)"

definition extract_namespace :: "parser \<Rightarrow> error + parser" where
  "extract_namespace self =
     (case root self of
        None \<Rightarrow> Inl AttributeError
      | Some r \<Rightarrow>
          if take 1 (tag r) = ''{''
          then Inr (self\<lparr> namespace := [(''ns'', namespace_of_tag (tag r))] \<rparr>)
          else Inr self)"

definition find_element :: "parser \<Rightarrow> string \<Rightarrow> error + elem option" where
  "find_element self path =
     (case root self of
        None \<Rightarrow> Inl AttributeError
      | Some r \<Rightarrow>
          (let elem = find_first r path (namespace self)
           in if elem = None \<and> namespace self \<noteq> []
              then Inr (find_first r path [])
              else Inr elem))"

definition get_folder_name :: "parser \<Rightarrow> error + string option" where
  "get_folder_name self =
     (case find_element self ''FOLDER'' of
        Inl e \<Rightarrow> Inl e
      | Inr None \<Rightarrow> Inr None
      | Inr (Some folder_elem) \<Rightarrow> Inr (get folder_elem ''NAME''))"

definition parse :: "(string \<Rightarrow> error + elem) \<Rightarrow> parser \<Rightarrow> (error + mapping) \<times> parser" where
  "parse files self =
     (case files (xml_path self) of
        Inl e \<Rightarrow> (Inl e, self)
      | Inr t \<Rightarrow>
          (let self1 = self\<lparr> tree := Some t, root := Some t \<rparr>
           in case extract_namespace self1 of
                Inl e \<Rightarrow> (Inl e, self1)
              | Inr self2 \<Rightarrow>
                  (case find_element self2 ''MAPPING'' of
                     Inl e \<Rightarrow> (Inl e, self2)
                   | Inr None \<Rightarrow> (Inl (ValueError ''No MAPPING element found in XML''), self2)
                   | Inr (Some mapping_elem) \<Rightarrow>
                       (case get_folder_name self2 of
                          Inl e \<Rightarrow> (Inl e, self2)
                        | Inr folder_name \<Rightarrow>
                            (Inr \<lparr> mapping.name = get_default mapping_elem ''NAME'' ''Unknown'',
                                   description = get mapping_elem ''DESCRIPTION'',
                                   folder = folder_name,
                                   transformations = parse_transformations mapping_elem,
                                   connections = parse_connections mapping_elem \<rparr>,
                             self2)))))"

section \<open>Queries of a mapping\<close>

definition get_sources :: "mapping \<Rightarrow> transformation list" where
  "get_sources m = filter (\<lambda>t. type t = ''Source Definition'') (transformations m)"

definition get_targets :: "mapping \<Rightarrow> transformation list" where
  "get_targets m = filter (\<lambda>t. type t = ''Target Definition'') (transformations m)"

text \<open>\<^verbatim>\<open>dict(Counter(...))\<close>: one entry per type, in order of first occurrence.\<close>

definition counter_add :: "(string \<times> nat) list \<Rightarrow> string \<Rightarrow> (string \<times> nat) list" where
  "counter_add c k = dict_set k (dict_get c k 0 + 1) c"

definition get_transformation_counts :: "mapping \<Rightarrow> (string \<times> nat) list" where
  "get_transformation_counts m = foldl counter_add [] (map type (transformations m))"

record summary =
  name :: string
  folder :: "string option"
  total_transformations :: nat
  total_connections :: nat
  sources :: nat
  targets :: nat
  transformation_counts :: "(string \<times> nat) list"

definition get_summary :: "mapping \<Rightarrow> summary" where
  "get_summary m =
     \<lparr> summary.name = mapping.name m,
       summary.folder = mapping.folder m,
       total_transformations = length (transformations m),
       total_connections = length (connections m),
       sources = length (get_sources m),
       targets = length (get_targets m),
       transformation_counts = get_transformation_counts m \<rparr>"

section \<open>Reference notions used to state the properties\<close>

text \<open>A file system that holds one readable, well-formed document.\<close>

definition one_file :: "string \<Rightarrow> elem \<Rightarrow> string \<Rightarrow> error + elem" where
  "one_file path t p = (if p = path then Inr t else Inl OSError)"

text \<open>
  The number of elements with a given tag strictly below an element, counted by recursion
  over the tree rather than through the list of descendants.
\<close>

fun count_below :: "string \<Rightarrow> elem \<Rightarrow> nat" where
  "count_below t (Elem _ _ cs) =
     sum_list (map (\<lambda>c. (if tag c = t then 1 else 0) + count_below t c) cs)"

text \<open>A connector is complete when its four addressing attributes are present and non-empty.\<close>

definition connector_complete :: "elem \<Rightarrow> bool" where
  "connector_complete c =
     (truthy (get c ''FROMFIELD'') \<and> truthy (get c ''FROMINSTANCE'') \<and>
      truthy (get c ''TOFIELD'') \<and> truthy (get c ''TOINSTANCE''))"

definition connection_of :: "elem \<Rightarrow> connection" where
  "connection_of c =
     \<lparr> from_transformation = the (get c ''FROMINSTANCE''), from_port = the (get c ''FROMFIELD''),
       to_transformation = the (get c ''TOINSTANCE''), to_port = the (get c ''TOFIELD'') \<rparr>"

text \<open>The mapping that \<^verbatim>\<open>parse\<close> assembles from the root and the mapping element it found.\<close>

definition mapping_of :: "elem \<Rightarrow> elem \<Rightarrow> mapping" where
  "mapping_of r mapping_elem =
     \<lparr> mapping.name = get_default mapping_elem ''NAME'' ''Unknown'',
       mapping.description = get mapping_elem ''DESCRIPTION'',
       mapping.folder =
         (case find_first r ''FOLDER'' [] of None \<Rightarrow> None | Some f \<Rightarrow> get f ''NAME''),
       transformations = parse_transformations mapping_elem,
       connections = parse_connections mapping_elem \<rparr>"

text \<open>A small document in the shape of an exported repository, used to instantiate the theorems.\<close>

definition sample_mapping :: elem where
  "sample_mapping =
     Elem ''MAPPING'' [(''NAME'', ''m_load''), (''DESCRIPTION'', ''daily load'')]
       [Elem ''TRANSFORMATION''
          [(''TYPE'', ''Source Definition''), (''NAME'', ''SRC''), (''OWNER'', ''etl'')]
          [Elem ''TRANSFORMFIELD'' [(''NAME'', ''ID''), (''DATATYPE'', ''integer''),
             (''PRECISION'', ''12''), (''SCALE'', ''abc'')] [],
           Elem ''TRANSFORMFIELD'' [] [],
           Elem ''TABLEATTRIBUTE'' [(''NAME'', ''OWNER''), (''VALUE'', ''dwh'')] [],
           Elem ''TABLEATTRIBUTE'' [(''NAME'', ''Tracing''), (''VALUE'', '''')] []],
        Elem ''TRANSFORMATION'' [(''TYPE'', ''Lookup Procedure'')] [],
        Elem ''CONNECTOR'' [(''FROMFIELD'', ''ID''), (''FROMINSTANCE'', ''SRC''),
          (''TOFIELD'', ''ID''), (''TOINSTANCE'', ''TGT'')] [],
        Elem ''CONNECTOR'' [(''FROMFIELD'', ''ID''), (''FROMINSTANCE'', ''SRC''),
          (''TOINSTANCE'', ''TGT'')] []]"

definition sample_document :: elem where
  "sample_document =
     Elem ''POWERMART'' [] [Elem ''FOLDER'' [(''NAME'', ''Sales'')] [sample_mapping]]"

text \<open>
  Strings that cannot be an integer literal because of one of their characters: a character
  that is no digit, no white space, no sign and no underscore.
\<close>

definition non_numeric_char :: "char \<Rightarrow> bool" where
  "non_numeric_char c =
     (\<not> is_digit c \<and> \<not> is_space c \<and> c \<noteq> CHR ''+'' \<and> c \<noteq> CHR ''-'' \<and> c \<noteq> CHR ''_'')"

definition non_numeric :: "string \<Rightarrow> bool" where
  "non_numeric s = list_ex non_numeric_char s"

text \<open>The number that a string of decimal digits denotes.\<close>

definition decimal :: "string \<Rightarrow> nat" where
  "decimal s = foldl (\<lambda>a c. 10 * a + digit_val c) 0 s"

text \<open>
  The strings that are integer literals: with the white space at both ends taken off, an
  optional sign and then groups of digits, one underscore between two groups. After the
  first digit the rest is digits and underscores, ends in a digit when it is not empty, and
  has no two underscores in a row. The value of a literal is the number its digits denote,
  negated under a minus sign.
\<close>

definition groups_after_digit :: "string \<Rightarrow> bool" where
  "groups_after_digit ds =
     (list_all (\<lambda>c. is_digit c \<or> c = CHR ''_'') ds \<and>
      (ds = [] \<or> is_digit (last ds)) \<and>
      list_all (\<lambda>(a, b). \<not> (a = CHR ''_'' \<and> b = CHR ''_'')) (zip ds (tl ds)))"

definition digit_groups :: "string \<Rightarrow> bool" where
  "digit_groups body = (body \<noteq> [] \<and> is_digit (hd body) \<and> groups_after_digit (tl body))"

definition unsigned_part :: "string \<Rightarrow> string" where
  "unsigned_part t = (if t \<noteq> [] \<and> (hd t = CHR ''+'' \<or> hd t = CHR ''-'') then tl t else t)"

definition integer_literal :: "string \<Rightarrow> bool" where
  "integer_literal s = digit_groups (unsigned_part (strip s))"

definition literal_value :: "string \<Rightarrow> int" where
  "literal_value s =
     (let n = int (decimal (filter is_digit (strip s)))
      in if take 1 (strip s) = ''-'' then - n else n)"

text \<open>A port element with the given \<^verbatim>\<open>PRECISION\<close> and \<^verbatim>\<open>SCALE\<close>.\<close>

definition sample_field :: "string \<Rightarrow> string \<Rightarrow> elem" where
  "sample_field p s =
     Elem ''TRANSFORMFIELD'' [(''NAME'', ''ID''), (''PRECISION'', p), (''SCALE'', s)] []"

text \<open>
  The entry that a \<^verbatim>\<open>TABLEATTRIBUTE\<close> element contributes to the properties: its name and
  value when both attributes are present and non-empty, and nothing otherwise. The overlay
  of a transformation element is the list of these entries in document order.
\<close>

definition overlay_entry :: "elem \<Rightarrow> (string \<times> string) option" where
  "overlay_entry p =
     (case get p ''NAME'' of
        None \<Rightarrow> None
      | Some n \<Rightarrow>
          (case get p ''VALUE'' of
             None \<Rightarrow> None
           | Some v \<Rightarrow> if n = [] \<or> v = [] then None else Some (n, v)))"

definition property_pairs :: "elem \<Rightarrow> (string \<times> string) list" where
  "property_pairs e =
     List.map_filter overlay_entry (filter (\<lambda>x. tag x = ''TABLEATTRIBUTE'') (descendants e))"

text \<open>An element with attributes and nested property elements, some of them partial.\<close>

definition sample_transformation :: elem where
  "sample_transformation =
     Elem ''TRANSFORMATION'' [(''NAME'', ''SRC''), (''OWNER'', ''etl'')]
       [Elem ''TABLEATTRIBUTE'' [(''NAME'', ''OWNER''), (''VALUE'', ''dwh'')] [],
        Elem ''TABLEATTRIBUTE'' [(''NAME'', ''Tracing''), (''VALUE'', '''')] [],
        Elem ''GROUP'' []
          [Elem ''TABLEATTRIBUTE'' [(''NAME'', ''OWNER''), (''VALUE'', ''ops'')] [],
           Elem ''TABLEATTRIBUTE'' [(''NAME'', ''Cache''), (''VALUE'', ''on'')] []],
        Elem ''TABLEATTRIBUTE'' [(''VALUE'', ''x'')] []]"

text \<open>A mapping with one source, one target and two other transformations.\<close>

definition sample_typed :: "string \<Rightarrow> transformation" where
  "sample_typed ty =
     \<lparr> transformation.name = ''t'', type = ty, transformation.description = None,
       ports = [], properties = [] \<rparr>"

definition sample_four :: mapping where
  "sample_four =
     \<lparr> mapping.name = ''m'', description = None, folder = None,
       transformations = [sample_typed ''Source Definition'',
         sample_typed ''Source Definition 2'', sample_typed ''Target Definition'',
         sample_typed ''Target''],
       connections = [] \<rparr>"

section \<open>Reporter\<close>

subsection \<open>Formatting\<close>

text \<open>
  \<^verbatim>\<open>str\<close> of a non-negative integer, of an optional string and of a connection (its
  \<^verbatim>\<open>__repr__\<close>), and the format specifications \<^verbatim>\<open>:.<50\<close>, \<^verbatim>\<open>:>3\<close> and \<^verbatim>\<open>:>2\<close>: padding
  to a width, never cutting.
\<close>

fun str_of_nat :: "nat \<Rightarrow> string" where
  "str_of_nat n =
     (if n < 10 then [char_of (48 + n)]
      else str_of_nat (n div 10) @ [char_of (48 + n mod 10)])"

declare str_of_nat.simps [simp del]

definition str_of_option :: "string option \<Rightarrow> string" where
  "str_of_option v = (case v of None \<Rightarrow> ''None'' | Some s \<Rightarrow> s)"

definition str_of_connection :: "connection \<Rightarrow> string" where
  "str_of_connection c =
     from_transformation c @ ''.'' @ from_port c @ '' -> '' @ to_transformation c @ ''.'' @ to_port c"

definition ljust :: "nat \<Rightarrow> char \<Rightarrow> string \<Rightarrow> string" where
  "ljust w c s = s @ replicate (w - length s) c"

definition rjust :: "nat \<Rightarrow> char \<Rightarrow> string \<Rightarrow> string" where
  "rjust w c s = replicate (w - length s) c @ s"

text \<open>
  The icons in the string literals of the reporter are characters beyond code point 255;
  each is kept as the bytes that the literal has in the source file.
\<close>

definition icon_folder :: string where
  "icon_folder = [CHR 0xEF, CHR 0xA3, CHR 0xBF, CHR 0xC3, CHR 0xBC, CHR 0xC3, CHR 0xAC, CHR 0xC3, CHR 0x85]"

definition icon_total :: string where
  "icon_total = [CHR 0xEF, CHR 0xA3, CHR 0xBF, CHR 0xC3, CHR 0xBC, CHR 0xC3, CHR 0xAC, CHR 0xC3, CHR 0xA4]"

definition icon_link :: string where
  "icon_link = [CHR 0xEF, CHR 0xA3, CHR 0xBF, CHR 0xC3, CHR 0xBC, CHR 0xC3, CHR 0xAE, CHR 0xC3, CHR 0xB3]"

definition icon_source :: string where
  "icon_source = [CHR 0xEF, CHR 0xA3, CHR 0xBF, CHR 0xC3, CHR 0xBC, CHR 0xC3, CHR 0xAC, CHR 0xE2, CHR 0x80, CHR 0xA2]"

definition icon_target :: string where
  "icon_target = [CHR 0xEF, CHR 0xA3, CHR 0xBF, CHR 0xC3, CHR 0xBC, CHR 0xC3, CHR 0xAC, CHR 0xC2, CHR 0xA7]"

definition icon_other :: string where
  "icon_other = [CHR 0xEF, CHR 0xA3, CHR 0xBF, CHR 0xC3, CHR 0xBC, CHR 0xC3, CHR 0xAE, CHR 0xC3, CHR 0x9F]"

definition icon_done :: string where
  "icon_done = [CHR 0xE2, CHR 0x80, CHR 0x9A, CHR 0xC3, CHR 0xBA, CHR 0xC3, CHR 0x96]"

definition newline :: string where
  "newline = [CHR 0x0A]"

definition rule_line :: string where
  "rule_line = replicate 80 CHR ''=''"

subsection \<open>\<^verbatim>\<open>print_mapping_summary\<close>\<close>

text \<open>
  Standard output is the list of the texts printed so far, one entry for each call of
  \<^verbatim>\<open>print\<close>; writing to it is taken to succeed. The function gets the mapping object and
  the output, and returns the mapping object as it leaves it and the output extended.
  The blocks below are the loops of the function, each giving the texts it prints.
\<close>

definition breakdown_lines :: "summary \<Rightarrow> string list" where
  "breakdown_lines s =
     map (\<lambda>(trans_type, count).
            ''  '' @ ljust 50 CHR ''.'' trans_type @ '' '' @ rjust 3 CHR '' '' (str_of_nat count))
       (sort (transformation_counts s))"

definition sample_port_lines :: "transformation \<Rightarrow> string list" where
  "sample_port_lines t =
     (if ports t \<noteq> []
      then ''     Sample Ports:'' #
           map (\<lambda>p. ''       - '' @ port.name p @ '' ('' @ datatype p @ '')'') (take 5 (ports t))
      else [])"

definition source_lines :: "transformation \<Rightarrow> string list" where
  "source_lines source =
     [newline @ ''  '' @ icon_source @ '' '' @ transformation.name source,
      ''     Type: '' @ type source,
      ''     Ports: '' @ str_of_nat (length (ports source))] @
     sample_port_lines source"

definition target_lines :: "transformation \<Rightarrow> string list" where
  "target_lines target =
     [newline @ ''  '' @ icon_target @ '' '' @ transformation.name target,
      ''     Type: '' @ type target,
      ''     Ports: '' @ str_of_nat (length (ports target))] @
     sample_port_lines target"

definition detail_lines :: "transformation \<Rightarrow> string list" where
  "detail_lines tr =
     (if type tr \<notin> set [''Source Definition'', ''Target Definition'']
      then [newline @ ''  '' @ icon_other @ '' '' @ transformation.name tr,
            ''     Type: '' @ type tr,
            ''     Ports: '' @ str_of_nat (length (ports tr))] @
           (let expr_ports = filter (\<lambda>p. truthy (expression p)) (ports tr)
            in if expr_ports \<noteq> []
               then (''     Expressions: '' @ str_of_nat (length expr_ports)) #
                    map (\<lambda>p. ''       - '' @ port.name p @ '' = '' @ str_of_option (expression p))
                      (take 3 expr_ports)
               else [])
      else [])"

definition flow_lines :: "mapping \<Rightarrow> string list" where
  "flow_lines m =
     map (\<lambda>(i, conn). ''  '' @ rjust 2 CHR '' '' (str_of_nat i) @ ''. '' @ str_of_connection conn)
       (List.enumerate 1 (take 10 (connections m))) @
     (if length (connections m) > 10
      then [''  ... and '' @ str_of_nat (length (connections m) - 10) @ '' more connections'']
      else [])"

definition print_mapping_summary :: "mapping \<Rightarrow> string list \<Rightarrow> mapping \<times> string list" where
  "print_mapping_summary m out =
     (let s = get_summary m
      in (m,
          out @
          [rule_line, ''MAPPING SUMMARY: '' @ mapping.name m, rule_line,
           newline @ icon_folder @ '' Folder: '' @ str_of_option (summary.folder s),
           icon_total @ '' Total Transformations: '' @ str_of_nat (total_transformations s),
           icon_link @ '' Total Connections: '' @ str_of_nat (total_connections s),
           icon_source @ '' Source Count: '' @ str_of_nat (sources s),
           icon_target @ '' Target Count: '' @ str_of_nat (targets s),
           newline @ rule_line, ''TRANSFORMATION BREAKDOWN'', rule_line] @
          breakdown_lines s @
          [newline @ rule_line, ''SOURCE TRANSFORMATIONS'', rule_line] @
          concat (map source_lines (get_sources m)) @
          [newline @ rule_line, ''TARGET TRANSFORMATIONS'', rule_line] @
          concat (map target_lines (get_targets m)) @
          [newline @ rule_line, ''TRANSFORMATION DETAILS'', rule_line] @
          concat (map detail_lines (transformations m)) @
          [newline @ rule_line, ''DATA FLOW (First 10 connections)'', rule_line] @
          flow_lines m @
          [newline @ rule_line]))"

section \<open>Exporter\<close>

text \<open>
  JSON values, as far as the exporter builds them: \<^verbatim>\<open>None\<close> is \<^verbatim>\<open>null\<close>, an integer a
  number, a string a string, a list an array, a dictionary an object with its keys in
  insertion order.
\<close>

datatype json = JNull | JInt int | JString string | JArray "json list"
  | JObject "(string \<times> json) list"

definition json_of_string_option :: "string option \<Rightarrow> json" where
  "json_of_string_option v = (case v of None \<Rightarrow> JNull | Some s \<Rightarrow> JString s)"

definition json_of_int_option :: "int option \<Rightarrow> json" where
  "json_of_int_option v = (case v of None \<Rightarrow> JNull | Some n \<Rightarrow> JInt n)"

text \<open>The dictionary \<^verbatim>\<open>data\<close> of \<^verbatim>\<open>export_to_json\<close>, from the inside out.\<close>

definition port_data :: "port \<Rightarrow> json" where
  "port_data p =
     JObject [(''name'', JString (port.name p)),
              (''datatype'', JString (datatype p)),
              (''precision'', json_of_int_option (precision p)),
              (''scale'', json_of_int_option (scale p)),
              (''nullable'', JString (nullable p)),
              (''port_type'', JString (port_type p)),
              (''expression'', json_of_string_option (expression p))]"

definition transformation_data :: "transformation \<Rightarrow> json" where
  "transformation_data t =
     JObject [(''name'', JString (transformation.name t)),
              (''type'', JString (type t)),
              (''description'', json_of_string_option (transformation.description t)),
              (''ports'', JArray (map port_data (ports t))),
              (''properties'', JObject (map (\<lambda>(k, v). (k, JString v)) (properties t)))]"

definition connection_data :: "connection \<Rightarrow> json" where
  "connection_data c =
     JObject [(''from_transformation'', JString (from_transformation c)),
              (''from_port'', JString (from_port c)),
              (''to_transformation'', JString (to_transformation c)),
              (''to_port'', JString (to_port c))]"

definition export_data :: "mapping \<Rightarrow> json" where
  "export_data m =
     JObject [(''name'', JString (mapping.name m)),
              (''description'', json_of_string_option (mapping.description m)),
              (''folder'', json_of_string_option (mapping.folder m)),
              (''transformations'', JArray (map transformation_data (transformations m))),
              (''connections'', JArray (map connection_data (connections m)))]"

text \<open>
  What \<^verbatim>\<open>export_to_json\<close> works on: the files on disk, each the JSON value that its text
  denotes, the paths that \<^verbatim>\<open>open(path, 'w')\<close> can open, and standard output. Opening a
  path that cannot be opened raises \<^verbatim>\<open>OSError\<close> and changes nothing; otherwise the
  document is written under the path and a line is printed.
\<close>

record world =
  disk :: "string \<Rightarrow> json option"
  writable :: "string \<Rightarrow> bool"
  stdout :: "string list"

definition export_to_json :: "mapping \<Rightarrow> string \<Rightarrow> world \<Rightarrow> (error + unit) \<times> world" where
  "export_to_json m output_path w =
     (let data = export_data m
      in if writable w output_path
         then (Inr (),
               w\<lparr> disk := (disk w)(output_path \<mapsto> data),
                  stdout := stdout w @
                    [newline @ icon_done @ '' Mapping exported to: '' @ output_path] \<rparr>)
         else (Inl OSError, w))"

section \<open>Reading an exported document\<close>

text \<open>
  The program only writes the document. To state what re-reading it gives, this is the
  reader of a document of the exported shape: every field is looked up by its key, and a
  field that is missing or of another kind makes the reading fail.
\<close>

definition json_field :: "json \<Rightarrow> string \<Rightarrow> json option" where
  "json_field j k = (case j of JObject kvs \<Rightarrow> map_of kvs k | _ \<Rightarrow> None)"

definition as_string :: "json \<Rightarrow> string option" where
  "as_string j = (case j of JString s \<Rightarrow> Some s | _ \<Rightarrow> None)"

definition as_string_option :: "json \<Rightarrow> string option option" where
  "as_string_option j = (case j of JNull \<Rightarrow> Some None | JString s \<Rightarrow> Some (Some s) | _ \<Rightarrow> None)"

definition as_int_option :: "json \<Rightarrow> int option option" where
  "as_int_option j = (case j of JNull \<Rightarrow> Some None | JInt n \<Rightarrow> Some (Some n) | _ \<Rightarrow> None)"

definition as_list :: "json \<Rightarrow> json list option" where
  "as_list j = (case j of JArray js \<Rightarrow> Some js | _ \<Rightarrow> None)"

definition read_port :: "json \<Rightarrow> port option" where
  "read_port j =
     do { n \<leftarrow> json_field j ''name'' \<bind> as_string;
          d \<leftarrow> json_field j ''datatype'' \<bind> as_string;
          p \<leftarrow> json_field j ''precision'' \<bind> as_int_option;
          s \<leftarrow> json_field j ''scale'' \<bind> as_int_option;
          nu \<leftarrow> json_field j ''nullable'' \<bind> as_string;
          pt \<leftarrow> json_field j ''port_type'' \<bind> as_string;
          e \<leftarrow> json_field j ''expression'' \<bind> as_string_option;
          Some \<lparr> port.name = n, datatype = d, precision = p, scale = s, nullable = nu,
                 port_type = pt, expression = e \<rparr> }"

definition read_properties :: "json \<Rightarrow> (string \<times> string) list option" where
  "read_properties j =
     (case j of
        JObject kvs \<Rightarrow> those (map (\<lambda>(k, v). map_option (Pair k) (as_string v)) kvs)
      | _ \<Rightarrow> None)"

definition read_transformation :: "json \<Rightarrow> transformation option" where
  "read_transformation j =
     do { n \<leftarrow> json_field j ''name'' \<bind> as_string;
          ty \<leftarrow> json_field j ''type'' \<bind> as_string;
          d \<leftarrow> json_field j ''description'' \<bind> as_string_option;
          ps \<leftarrow> json_field j ''ports'' \<bind> as_list \<bind> (\<lambda>js. those (map read_port js));
          pr \<leftarrow> json_field j ''properties'' \<bind> read_properties;
          Some \<lparr> transformation.name = n, type = ty, transformation.description = d,
                 ports = ps, properties = pr \<rparr> }"

definition read_connection :: "json \<Rightarrow> connection option" where
  "read_connection j =
     do { ft \<leftarrow> json_field j ''from_transformation'' \<bind> as_string;
          fp \<leftarrow> json_field j ''from_port'' \<bind> as_string;
          tt \<leftarrow> json_field j ''to_transformation'' \<bind> as_string;
          tp \<leftarrow> json_field j ''to_port'' \<bind> as_string;
          Some \<lparr> from_transformation = ft, from_port = fp, to_transformation = tt,
                 to_port = tp \<rparr> }"

definition read_mapping :: "json \<Rightarrow> mapping option" where
  "read_mapping j =
     do { n \<leftarrow> json_field j ''name'' \<bind> as_string;
          d \<leftarrow> json_field j ''description'' \<bind> as_string_option;
          f \<leftarrow> json_field j ''folder'' \<bind> as_string_option;
          ts \<leftarrow> json_field j ''transformations'' \<bind> as_list
                 \<bind> (\<lambda>js. those (map read_transformation js));
          cs \<leftarrow> json_field j ''connections'' \<bind> as_list
                 \<bind> (\<lambda>js. those (map read_connection js));
          Some \<lparr> mapping.name = n, description = d, folder = f, transformations = ts,
                 connections = cs \<rparr> }"

text \<open>A mapping with a port, properties and a connection, and a world where one path opens.\<close>

definition sample_exported :: mapping where
  "sample_exported =
     \<lparr> mapping.name = ''m_load'', description = None, folder = Some ''Sales'',
       transformations =
         [\<lparr> transformation.name = ''EXP'', type = ''Expression'',
            transformation.description = Some ''derive'',
            ports = [\<lparr> port.name = ''TOTAL'', datatype = ''decimal'', precision = Some 12,
                       scale = None, nullable = ''NOTNULL'', port_type = ''OUTPUT'',
                       expression = Some ''A + B'' \<rparr>],
            properties = [(''NAME'', ''EXP''), (''Tracing Level'', ''Normal'')] \<rparr>],
       connections =
         [\<lparr> from_transformation = ''SRC'', from_port = ''A'', to_transformation = ''EXP'',
            to_port = ''A'' \<rparr>] \<rparr>"

definition sample_world :: world where
  "sample_world =
     \<lparr> disk = (\<lambda>p. None), writable = (\<lambda>p. p = ''test_parsed.json''), stdout = [] \<rparr>"

section \<open>Lookup in the tree\<close>

lemma iter_descendants: "iter e = e # descendants e"
  by (cases e) (simp add: descendants_def)

lemma qualify_no_default: "map_of ns [] = None \<Longrightarrow> qualify ns t = t"
  by (simp add: qualify_def)

lemma findall_plain: "findall e t [] = filter (\<lambda>x. tag x = t) (descendants e)"
  by (simp add: findall_def qualify_def)

lemma first_of_filter: "(case filter P xs of [] \<Rightarrow> None | x # _ \<Rightarrow> Some x) = List.find P xs"
  by (induction xs) simp_all

lemma find_first_plain: "find_first e t [] = List.find (\<lambda>x. tag x = t) (descendants e)"
  by (simp add: find_first_def findall_plain first_of_filter)

lemma find_element_plain:
  "root self = Some r \<Longrightarrow> map_of (namespace self) [] = None \<Longrightarrow>
   find_element self t = Inr (find_first r t [])"
  by (simp add: find_element_def Let_def find_first_def findall_def qualify_def)

lemma get_folder_name_plain:
  "root self = Some r \<Longrightarrow> map_of (namespace self) [] = None \<Longrightarrow>
   get_folder_name self =
     Inr (case find_first r ''FOLDER'' [] of None \<Rightarrow> None | Some f \<Rightarrow> get f ''NAME'')"
  by (simp add: get_folder_name_def find_element_plain split: option.splits)

text \<open>
  What \<^verbatim>\<open>parse\<close> returns and the state it leaves, for a readable file and a namespace map
  without a default namespace (the fresh parser, and every parser that has parsed before).
\<close>

lemma parse_characterised:
  assumes "files (xml_path self) = Inr r" and "map_of (namespace self) [] = None"
  shows "fst (parse files self) =
     (case find_first r ''MAPPING'' [] of
        None \<Rightarrow> Inl (ValueError ''No MAPPING element found in XML'')
      | Some m \<Rightarrow> Inr (mapping_of r m))"
    and "xml_path (snd (parse files self)) = xml_path self"
    and "map_of (namespace (snd (parse files self))) [] = None"
proof -
  let ?s1 = "self\<lparr> tree := Some r, root := Some r \<rparr>"
  let ?s2 = "if take 1 (tag r) = ''{''
             then ?s1\<lparr> namespace := [(''ns'', namespace_of_tag (tag r))] \<rparr> else ?s1"
  have e: "extract_namespace ?s1 = Inr ?s2"
    by (simp add: extract_namespace_def)
  have r2: "root ?s2 = Some r" by simp
  have n2: "map_of (namespace ?s2) [] = None" using assms(2) by simp
  have f: "find_element ?s2 ''MAPPING'' = Inr (find_first r ''MAPPING'' [])"
    using r2 n2 by (rule find_element_plain)
  have g: "get_folder_name ?s2 =
      Inr (case find_first r ''FOLDER'' [] of None \<Rightarrow> None | Some f \<Rightarrow> get f ''NAME'')"
    using r2 n2 by (rule get_folder_name_plain)
  have s: "snd (parse files self) = ?s2"
    unfolding parse_def assms(1) sum.case Let_def e f g
    by (simp split: option.splits)
  show "fst (parse files self) =
     (case find_first r ''MAPPING'' [] of
        None \<Rightarrow> Inl (ValueError ''No MAPPING element found in XML'')
      | Some m \<Rightarrow> Inr (mapping_of r m))"
    unfolding parse_def assms(1) sum.case Let_def e f g mapping_of_def
    by (simp split: option.splits)
  show "xml_path (snd (parse files self)) = xml_path self"
    unfolding s by simp
  show "map_of (namespace (snd (parse files self))) [] = None"
    unfolding s using assms(2) by simp
qed

lemma init_plain: "xml_path (init path) = path" "map_of (namespace (init path)) [] = None"
  by (simp_all add: init_def)

lemma length_filter_concat:
  "length (filter P (concat xss)) = sum_list (map (\<lambda>xs. length (filter P xs)) xss)"
  by (induction xss) simp_all

lemma count_below_descendants:
  "count_below t e = length (filter (\<lambda>x. tag x = t) (descendants e))"
proof (induction e)
  case (Elem tg a cs)
  have m: "map (\<lambda>c. (if tag c = t then 1 else 0) + count_below t c) cs =
           map (\<lambda>c. length (filter (\<lambda>x. tag x = t) (iter c))) cs"
    by (rule map_cong) (simp_all add: Elem.IH iter_descendants)
  have "count_below t (Elem tg a cs) =
        sum_list (map (\<lambda>c. length (filter (\<lambda>x. tag x = t) (iter c))) cs)"
    using arg_cong [OF m, of sum_list] by simp
  also have "\<dots> = length (filter (\<lambda>x. tag x = t) (descendants (Elem tg a cs)))"
    by (simp add: descendants_def length_filter_concat comp_def)
  finally show ?case .
qed

lemma foldl_connection_step:
  "foldl connection_step acc es = acc @ map connection_of (filter connector_complete es)"
  by (induction es arbitrary: acc)
     (simp_all add: connection_step_def connector_complete_def connection_of_def Let_def)

lemma parse_connections_eq:
  "parse_connections m =
     map connection_of (filter connector_complete
       (filter (\<lambda>x. tag x = ''CONNECTOR'') (descendants m)))"
  by (simp add: parse_connections_def foldl_connection_step findall_plain)

lemma parse_transformations_eq:
  "parse_transformations m =
     map parse_transformation (filter (\<lambda>x. tag x = ''TRANSFORMATION'') (descendants m))"
  by (simp add: parse_transformations_def findall_plain)

text \<open>
  A document whose elements are all in a namespace: the namespace map that \<^verbatim>\<open>parse\<close>
  keeps has the prefix \<^verbatim>\<open>ns\<close> only, the query \<^verbatim>\<open>.//MAPPING\<close> has no prefix, and so both
  lookups of \<^verbatim>\<open>_find_element\<close> compare with the plain tag and find nothing.
\<close>

lemma parse_namespaced_document:
  "parse (one_file ''test.xml''
      (Elem ''{http://x}POWERMART'' [] [Elem ''{http://x}MAPPING'' [(''NAME'', ''m'')] []]))
     (init ''test.xml'') =
   (Inl (ValueError ''No MAPPING element found in XML''),
    \<lparr> xml_path = ''test.xml'',
      tree = Some (Elem ''{http://x}POWERMART'' []
        [Elem ''{http://x}MAPPING'' [(''NAME'', ''m'')] []]),
      root = Some (Elem ''{http://x}POWERMART'' []
        [Elem ''{http://x}MAPPING'' [(''NAME'', ''m'')] []]),
      namespace = [(''ns'', ''http://x'')] \<rparr>)"
  by (simp add: parse_def one_file_def init_def extract_namespace_def find_element_def
        find_first_def findall_def qualify_def descendants_def Let_def namespace_of_tag_def
        strip_char_def)

section \<open>Claims about \<^verbatim>\<open>parse\<close>\<close>

text \<open>
  C1, as the code has it. When the document has an element with the plain tag
  \<^verbatim>\<open>MAPPING\<close> strictly below its root, \<^verbatim>\<open>parse\<close> on a fresh parser returns a mapping
  taken from the first such element in document order: its transformations are one entry
  per element tagged \<^verbatim>\<open>TRANSFORMATION\<close> below that element, in document order, and its
  connections are one entry per element tagged \<^verbatim>\<open>CONNECTOR\<close> below it whose
  \<^verbatim>\<open>FROMFIELD\<close>, \<^verbatim>\<open>FROMINSTANCE\<close>, \<^verbatim>\<open>TOFIELD\<close> and \<^verbatim>\<open>TOINSTANCE\<close> are all present and
  non-empty; the other connectors are left out and raise nothing.
\<close>

theorem parse_transformations_and_connections:
  assumes "files path = Inr r"
    and "List.find (\<lambda>e. tag e = ''MAPPING'') (descendants r) = Some m"
  shows "\<exists>mp. fst (parse files (init path)) = Inr mp \<and>
     transformations mp =
       map parse_transformation (filter (\<lambda>e. tag e = ''TRANSFORMATION'') (descendants m)) \<and>
     length (transformations mp) = count_below ''TRANSFORMATION'' m \<and>
     connections mp =
       map connection_of (filter connector_complete
         (filter (\<lambda>e. tag e = ''CONNECTOR'') (descendants m))) \<and>
     length (connections mp) =
       length (filter (\<lambda>e. tag e = ''CONNECTOR'' \<and> connector_complete e) (descendants m))"
proof -
  have "fst (parse files (init path)) = Inr (mapping_of r m)"
    using parse_characterised(1) [of files "init path" r] assms
    by (simp add: init_plain find_first_plain)
  moreover have "transformations (mapping_of r m) =
      map parse_transformation (filter (\<lambda>e. tag e = ''TRANSFORMATION'') (descendants m))"
    by (simp add: mapping_of_def parse_transformations_eq)
  moreover have "length (transformations (mapping_of r m)) = count_below ''TRANSFORMATION'' m"
    by (simp add: mapping_of_def parse_transformations_eq count_below_descendants)
  moreover have "connections (mapping_of r m) =
      map connection_of (filter connector_complete
        (filter (\<lambda>e. tag e = ''CONNECTOR'') (descendants m)))"
    by (simp add: mapping_of_def parse_connections_eq)
  moreover have "length (connections (mapping_of r m)) =
      length (filter (\<lambda>e. tag e = ''CONNECTOR'' \<and> connector_complete e) (descendants m))"
    by (simp add: mapping_of_def parse_connections_eq conj_commute)
  ultimately show ?thesis by blast
qed

theorem parse_transformations_and_connections_witness:
  "one_file ''test.xml'' sample_document ''test.xml'' = Inr sample_document \<and>
   List.find (\<lambda>e. tag e = ''MAPPING'') (descendants sample_document) = Some sample_mapping \<and>
   (\<exists>mp. fst (parse (one_file ''test.xml'' sample_document) (init ''test.xml'')) = Inr mp \<and>
     transformations mp =
       map parse_transformation
         (filter (\<lambda>e. tag e = ''TRANSFORMATION'') (descendants sample_mapping)) \<and>
     length (transformations mp) = count_below ''TRANSFORMATION'' sample_mapping \<and>
     connections mp =
       map connection_of (filter connector_complete
         (filter (\<lambda>e. tag e = ''CONNECTOR'') (descendants sample_mapping))) \<and>
     length (connections mp) =
       length (filter (\<lambda>e. tag e = ''CONNECTOR'' \<and> connector_complete e)
         (descendants sample_mapping)))"
proof -
  have h1: "one_file ''test.xml'' sample_document ''test.xml'' = Inr sample_document"
    by (simp add: one_file_def)
  have h2: "List.find (\<lambda>e. tag e = ''MAPPING'') (descendants sample_document)
            = Some sample_mapping"
    by (simp add: sample_document_def descendants_def sample_mapping_def)
  show ?thesis
    using h1 h2 parse_transformations_and_connections
      [of "one_file ''test.xml'' sample_document" "''test.xml''" sample_document sample_mapping]
    by blast
qed

text \<open>
  C1 as the claim states it fails on a document whose root is itself the \<^verbatim>\<open>MAPPING\<close>
  element: the query \<^verbatim>\<open>.//MAPPING\<close> looks only below the root, so the document contains a
  mapping element and \<^verbatim>\<open>parse\<close> still raises.
\<close>

theorem parse_root_mapping_counterexample:
  "tag (Elem ''MAPPING'' [(''NAME'', ''m'')] [Elem ''TRANSFORMATION'' [(''NAME'', ''t'')] []])
     = ''MAPPING'' \<and>
   fst (parse (one_file ''test.xml''
          (Elem ''MAPPING'' [(''NAME'', ''m'')] [Elem ''TRANSFORMATION'' [(''NAME'', ''t'')] []]))
          (init ''test.xml''))
     = Inl (ValueError ''No MAPPING element found in XML'')"
  by (simp add: parse_def one_file_def init_def extract_namespace_def find_element_def
        find_first_def findall_def qualify_def descendants_def Let_def)

text \<open>
  C2. When the file is well-formed XML and no element of the tree, the root included, is
  tagged \<^verbatim>\<open>MAPPING\<close>, \<^verbatim>\<open>parse\<close> raises the \<^verbatim>\<open>ValueError\<close> with the message
  \<^verbatim>\<open>No MAPPING element found in XML\<close> (the error kind and text that the specification
  calls \<^verbatim>\<open>FormatError("no mapping element found")\<close>); the result is the error and no mapping.
\<close>

theorem parse_without_mapping_fails:
  assumes "files path = Inr r"
    and "\<forall>e \<in> set (iter r). tag e \<noteq> ''MAPPING''"
  shows "fst (parse files (init path)) = Inl (ValueError ''No MAPPING element found in XML'') \<and>
         (\<forall>mp. fst (parse files (init path)) \<noteq> Inr mp)"
proof -
  have "filter (\<lambda>x. tag x = ''MAPPING'') (descendants r) = []"
    using assms(2) by (simp add: iter_descendants filter_empty_conv)
  then have "find_first r ''MAPPING'' [] = None"
    by (simp add: find_first_def findall_plain)
  then have "fst (parse files (init path)) = Inl (ValueError ''No MAPPING element found in XML'')"
    using parse_characterised(1) [of files "init path" r] assms(1)
    by (simp add: init_plain)
  then show ?thesis by simp
qed

theorem parse_without_mapping_fails_witness:
  "one_file ''test.xml'' (Elem ''POWERMART'' [] [Elem ''FOLDER'' [(''NAME'', ''Sales'')] []])
     ''test.xml'' = Inr (Elem ''POWERMART'' [] [Elem ''FOLDER'' [(''NAME'', ''Sales'')] []]) \<and>
   list_all (\<lambda>e. tag e \<noteq> ''MAPPING'')
     (iter (Elem ''POWERMART'' [] [Elem ''FOLDER'' [(''NAME'', ''Sales'')] []])) \<and>
   fst (parse (one_file ''test.xml''
          (Elem ''POWERMART'' [] [Elem ''FOLDER'' [(''NAME'', ''Sales'')] []]))
          (init ''test.xml''))
     = Inl (ValueError ''No MAPPING element found in XML'')"
proof -
  let ?r = "Elem ''POWERMART'' [] [Elem ''FOLDER'' [(''NAME'', ''Sales'')] []]"
  have h1: "one_file ''test.xml'' ?r ''test.xml'' = Inr ?r"
    by (simp add: one_file_def)
  have h2: "\<forall>e \<in> set (iter ?r). tag e \<noteq> ''MAPPING''"
    by simp
  show ?thesis
    using h1 h2 parse_without_mapping_fails
      [of "one_file ''test.xml'' ?r" "''test.xml''" ?r]
    by (simp only: list_all_iff)
qed

section \<open>Facts about \<^verbatim>\<open>_safe_int\<close>\<close>

lemma parse_digits_bad:
  "\<exists>c \<in> set s. \<not> is_digit c \<and> c \<noteq> CHR ''_'' \<Longrightarrow> parse_digits s acc = None"
  by (induction s acc rule: parse_digits.induct) auto

lemma parse_digits_all_digits:
  "list_all is_digit s \<Longrightarrow>
   parse_digits s acc = Some (foldl (\<lambda>a c. 10 * a + digit_val c) acc s)"
  by (induction s acc rule: parse_digits.induct) auto

lemma unsigned_int_bad:
  assumes "\<exists>c \<in> set s. \<not> is_digit c \<and> c \<noteq> CHR ''_''"
  shows "\<exists>m. unsigned_int s = Inl m"
proof (cases s)
  case Nil
  then show ?thesis by (simp add: unsigned_int_def)
next
  case (Cons d ds)
  show ?thesis
  proof (cases "is_digit d")
    case True
    then have "\<exists>c \<in> set ds. \<not> is_digit c \<and> c \<noteq> CHR ''_''"
      using assms Cons by auto
    then have "parse_digits ds (digit_val d) = None"
      by (rule parse_digits_bad)
    then show ?thesis using True Cons by (simp add: unsigned_int_def)
  next
    case False
    then show ?thesis using Cons by (simp add: unsigned_int_def)
  qed
qed

lemma in_dropWhile: "c \<in> set s \<Longrightarrow> \<not> P c \<Longrightarrow> c \<in> set (dropWhile P s)"
  by (induction s) auto

lemma in_strip: "c \<in> set s \<Longrightarrow> \<not> is_space c \<Longrightarrow> c \<in> set (strip s)"
  by (simp add: strip_def in_dropWhile)

lemma py_int_non_numeric:
  assumes "non_numeric s"
  shows "\<exists>m. py_int s = Inl m"
proof -
  from assms obtain c where c: "c \<in> set s" "non_numeric_char c"
    by (auto simp add: non_numeric_def list_ex_iff)
  then have in_strip: "c \<in> set (strip s)"
    by (simp add: in_strip non_numeric_char_def)
  show ?thesis
  proof (cases "strip s")
    case Nil
    then show ?thesis using in_strip by simp
  next
    case (Cons d ds)
    have bad: "\<not> is_digit c \<and> c \<noteq> CHR ''_''"
      using c(2) by (simp add: non_numeric_char_def)
    show ?thesis
    proof (cases "d = CHR ''-'' \<or> d = CHR ''+''")
      case True
      then have "c \<in> set ds"
        using in_strip Cons c(2) by (auto simp add: non_numeric_char_def)
      then obtain m where "unsigned_int ds = Inl m"
        using unsigned_int_bad [of ds] bad by blast
      then show ?thesis
        using True Cons by (auto simp add: py_int_def)
    next
      case False
      obtain m where "unsigned_int (d # ds) = Inl m"
        using unsigned_int_bad [of "d # ds"] bad in_strip Cons by auto
      then show ?thesis
        using False Cons by (simp add: py_int_def)
    qed
  qed
qed

lemma safe_int_non_numeric: "non_numeric s \<Longrightarrow> safe_int (Some s) = None"
  using py_int_non_numeric [of s] by (auto simp add: safe_int_def)

lemma digit_not_space: "is_digit c \<Longrightarrow> \<not> is_space c"
  by (auto simp add: is_digit_def is_space_def Let_def)

lemma digit_not_sign: "is_digit c \<Longrightarrow> c \<noteq> CHR ''-'' \<and> c \<noteq> CHR ''+''"
  by (auto simp add: is_digit_def Let_def)

lemma strip_digits:
  assumes "s \<noteq> []" "list_all is_digit s"
  shows "strip s = s"
proof -
  have "\<not> is_space (hd s)" "\<not> is_space (last s)"
    using assms by (simp_all add: digit_not_space list_all_iff)
  then have "dropWhile is_space s = s" "dropWhile is_space (rev s) = rev s"
    using assms(1) by (simp_all add: dropWhile_eq_self_iff hd_rev)
  then show ?thesis by (simp add: strip_def)
qed

lemma py_int_digits:
  assumes "s \<noteq> []" "list_all is_digit s"
  shows "py_int s = Inr (int (decimal s))"
proof -
  obtain d ds where s: "s = d # ds" using assms(1) by (cases s) auto
  have d: "is_digit d" "list_all is_digit ds" using assms(2) s by simp_all
  show ?thesis
    using d digit_not_sign [of d] strip_digits [OF assms]
    by (simp add: py_int_def s unsigned_int_def parse_digits_all_digits decimal_def)
qed

lemma safe_int_digits:
  "s \<noteq> [] \<Longrightarrow> list_all is_digit s \<Longrightarrow> safe_int (Some s) = Some (int (decimal s))"
  by (simp add: safe_int_def py_int_digits)

lemma safe_int_abc: "safe_int (Some ''abc'') = None"
  by (rule safe_int_non_numeric)
     (simp add: non_numeric_def non_numeric_char_def is_digit_def is_space_def Let_def)

lemma safe_int_12: "safe_int (Some ''12'') = Some 12"
  using safe_int_digits [of "''12''"]
  by (simp add: is_digit_def Let_def decimal_def digit_val_def)


lemma underscore_not_digit: "\<not> is_digit CHR ''_''"
  by (simp add: is_digit_def)

lemma sign_not_digit: "\<not> is_digit CHR ''-''" "\<not> is_digit CHR ''+''"
  by (simp_all add: is_digit_def)

lemma groups_after_digit_Nil: "groups_after_digit []"
  by (simp add: groups_after_digit_def)

lemma groups_after_digit_digit:
  "is_digit c \<Longrightarrow> groups_after_digit (c # ds) = groups_after_digit ds"
  using underscore_not_digit by (cases ds) (auto simp add: groups_after_digit_def)

lemma groups_after_digit_underscore:
  "groups_after_digit (CHR ''_'' # ds) = (ds \<noteq> [] \<and> is_digit (hd ds) \<and> groups_after_digit ds)"
  using underscore_not_digit by (cases ds) (auto simp add: groups_after_digit_def)

lemma groups_after_digit_other:
  "\<not> is_digit c \<Longrightarrow> c \<noteq> CHR ''_'' \<Longrightarrow> \<not> groups_after_digit (c # ds)"
  by (simp add: groups_after_digit_def)

lemma parse_digits_groups:
  "parse_digits ds acc =
     (if groups_after_digit ds
      then Some (foldl (\<lambda>a c. 10 * a + digit_val c) acc (filter is_digit ds)) else None)"
proof (induction ds acc rule: parse_digits.induct)
  case (1 acc)
  then show ?case by (simp add: groups_after_digit_Nil)
next
  case (2 c acc)
  show ?case
  proof (cases "is_digit c")
    case True
    then show ?thesis by (simp add: groups_after_digit_digit groups_after_digit_Nil)
  next
    case False
    then have "\<not> groups_after_digit [c]"
      by (cases "c = CHR ''_''")
         (simp_all add: groups_after_digit_underscore groups_after_digit_other)
    then show ?thesis using False by simp
  qed
next
  case (3 c d ds acc)
  show ?case
  proof (cases "is_digit c")
    case True
    then show ?thesis using 3 by (simp add: groups_after_digit_digit)
  next
    case False
    show ?thesis
    proof (cases "c = CHR ''_''")
      case True
      note u = this
      show ?thesis
      proof (cases "is_digit d")
        case True
        then show ?thesis
          using 3(2) False u underscore_not_digit
          by (simp add: groups_after_digit_underscore groups_after_digit_digit)
      next
        case False
        then show ?thesis
          using u underscore_not_digit
          by (simp add: groups_after_digit_underscore)
      qed
    next
      case False
      then show ?thesis
        using \<open>\<not> is_digit c\<close> by (simp add: groups_after_digit_other)
    qed
  qed
qed

lemma unsigned_int_groups:
  "unsigned_int body =
     (if digit_groups body then Inr (int (decimal (filter is_digit body)))
      else Inl (ValueError ''invalid literal for int()''))"
  by (cases body) (simp_all add: unsigned_int_def digit_groups_def parse_digits_groups decimal_def)

lemma py_int_literal:
  "py_int s =
     (if integer_literal s then Inr (literal_value s)
      else Inl (ValueError ''invalid literal for int()''))"
proof (cases "strip s")
  case Nil
  then show ?thesis
    by (simp add: py_int_def integer_literal_def unsigned_part_def digit_groups_def)
next
  case (Cons c cs)
  then show ?thesis
    using sign_not_digit
    by (auto simp add: py_int_def integer_literal_def unsigned_part_def literal_value_def
          unsigned_int_groups Let_def)
qed

lemma safe_int_literal:
  "safe_int (Some s) = (if integer_literal s then Some (literal_value s) else None)"
  by (simp add: safe_int_def py_int_literal)

lemma safe_int_None: "safe_int None = None"
  by (simp add: safe_int_def)

section \<open>Claims about ports and transformation fields\<close>

text \<open>
  C4. The precision of a port is the best-effort integer reading of the \<^verbatim>\<open>PRECISION\<close>
  attribute of its element, and the scale that of \<^verbatim>\<open>SCALE\<close>: a missing attribute gives
  \<^verbatim>\<open>None\<close>, the value \<^verbatim>\<open>abc\<close> gives \<^verbatim>\<open>None\<close>, the value \<^verbatim>\<open>12\<close> gives the integer 12,
  every value with a character that cannot occur in an integer literal gives \<^verbatim>\<open>None\<close>, and
  every non-empty string of at most 4300 decimal digits (the interpreter's default limit)
  gives the number it denotes. In full: every value that is not an integer literal (the
  empty string, white space only, a sign alone, digits with a space or two underscores
  between them, an underscore at either end, and so on) gives \<^verbatim>\<open>None\<close>, and every integer
  literal of at most 4300 characters gives its value. The port is
  constructed in each case: \<^verbatim>\<open>parse_port\<close> has no error result, the \<^verbatim>\<open>ValueError\<close> of
  \<^verbatim>\<open>int\<close> being caught in \<^verbatim>\<open>safe_int\<close>.
\<close>

theorem port_precision_scale_best_effort:
  "(get e ''PRECISION'' = None \<longrightarrow> precision (parse_port e) = None) \<and>
   (get e ''PRECISION'' = Some ''abc'' \<longrightarrow> precision (parse_port e) = None) \<and>
   (get e ''PRECISION'' = Some ''12'' \<longrightarrow> precision (parse_port e) = Some 12) \<and>
   (\<forall>s. get e ''PRECISION'' = Some s \<and> non_numeric s \<longrightarrow> precision (parse_port e) = None) \<and>
   (\<forall>s. get e ''PRECISION'' = Some s \<and> s \<noteq> [] \<and> length s \<le> 4300 \<and> list_all is_digit s \<longrightarrow>
      precision (parse_port e) = Some (int (decimal s))) \<and>
   (get e ''SCALE'' = None \<longrightarrow> scale (parse_port e) = None) \<and>
   (get e ''SCALE'' = Some ''abc'' \<longrightarrow> scale (parse_port e) = None) \<and>
   (get e ''SCALE'' = Some ''12'' \<longrightarrow> scale (parse_port e) = Some 12) \<and>
   (\<forall>s. get e ''SCALE'' = Some s \<and> non_numeric s \<longrightarrow> scale (parse_port e) = None) \<and>
   (\<forall>s. get e ''SCALE'' = Some s \<and> s \<noteq> [] \<and> length s \<le> 4300 \<and> list_all is_digit s \<longrightarrow>
      scale (parse_port e) = Some (int (decimal s))) \<and>
   (\<forall>s. get e ''PRECISION'' = Some s \<and> \<not> integer_literal s \<longrightarrow>
      precision (parse_port e) = None) \<and>
   (\<forall>s. get e ''PRECISION'' = Some s \<and> integer_literal s \<and> length s \<le> 4300 \<longrightarrow>
      precision (parse_port e) = Some (literal_value s)) \<and>
   (\<forall>s. get e ''SCALE'' = Some s \<and> \<not> integer_literal s \<longrightarrow>
      scale (parse_port e) = None) \<and>
   (\<forall>s. get e ''SCALE'' = Some s \<and> integer_literal s \<and> length s \<le> 4300 \<longrightarrow>
      scale (parse_port e) = Some (literal_value s))"
  by (intro conjI;
      simp add: parse_port_def safe_int_None safe_int_abc safe_int_12 safe_int_non_numeric
        safe_int_digits;
      simp add: safe_int_literal)

lemma not_integer_literals:
  "\<not> integer_literal ''''" "\<not> integer_literal '' ''" "\<not> integer_literal ''+''"
  "\<not> integer_literal ''-''" "\<not> integer_literal ''1 2''" "\<not> integer_literal ''1__0''"
  "\<not> integer_literal ''_1''" "\<not> integer_literal ''1_''"
  "\<not> integer_literal [CHR 0x1C, CHR ''3'']" "\<not> integer_literal ''- 1''"
  by (simp_all add: integer_literal_def unsigned_part_def digit_groups_def
        groups_after_digit_def strip_def is_digit_def is_space_def Let_def)

lemma integer_literals:
  "integer_literal '' 12 ''" "integer_literal ''1_000''" "integer_literal ''-5''"
  "integer_literal ''+007''"
  by (simp_all add: integer_literal_def unsigned_part_def digit_groups_def
        groups_after_digit_def strip_def is_digit_def is_space_def Let_def)

lemma literal_values:
  "literal_value '' 12 '' = 12" "literal_value ''1_000'' = 1000" "literal_value ''-5'' = - 5"
  "literal_value ''+007'' = 7"
  by (simp_all add: literal_value_def strip_def is_digit_def is_space_def Let_def decimal_def
        digit_val_def)

lemma sample_field_get:
  "get (sample_field p s) ''PRECISION'' = Some p" "get (sample_field p s) ''SCALE'' = Some s"
  by (simp_all add: get_def sample_field_def)

theorem port_precision_scale_best_effort_witness:
  "precision (parse_port (Elem ''TRANSFORMFIELD'' [(''NAME'', ''ID'')] [])) = None \<and>
   scale (parse_port (Elem ''TRANSFORMFIELD'' [(''NAME'', ''ID'')] [])) = None \<and>
   precision (parse_port
     (Elem ''TRANSFORMFIELD'' [(''PRECISION'', ''abc''), (''SCALE'', ''abc'')] [])) = None \<and>
   scale (parse_port
     (Elem ''TRANSFORMFIELD'' [(''PRECISION'', ''abc''), (''SCALE'', ''abc'')] [])) = None \<and>
   precision (parse_port
     (Elem ''TRANSFORMFIELD'' [(''PRECISION'', ''12''), (''SCALE'', ''12'')] [])) = Some 12 \<and>
   scale (parse_port
     (Elem ''TRANSFORMFIELD'' [(''PRECISION'', ''12''), (''SCALE'', ''12'')] [])) = Some 12 \<and>
   precision (parse_port
     (Elem ''TRANSFORMFIELD'' [(''PRECISION'', ''1.5''), (''SCALE'', ''two'')] [])) = None \<and>
   scale (parse_port
     (Elem ''TRANSFORMFIELD'' [(''PRECISION'', ''1.5''), (''SCALE'', ''two'')] [])) = None \<and>
   precision (parse_port
     (Elem ''TRANSFORMFIELD'' [(''PRECISION'', ''007''), (''SCALE'', ''40'')] [])) = Some 7 \<and>
   scale (parse_port
     (Elem ''TRANSFORMFIELD'' [(''PRECISION'', ''007''), (''SCALE'', ''40'')] [])) = Some 40 \<and>
   precision (parse_port (sample_field '''' '' '')) = None \<and>
   scale (parse_port (sample_field '''' '' '')) = None \<and>
   precision (parse_port (sample_field ''+'' ''-'')) = None \<and>
   scale (parse_port (sample_field ''+'' ''-'')) = None \<and>
   precision (parse_port (sample_field ''1 2'' ''1__0'')) = None \<and>
   scale (parse_port (sample_field ''1 2'' ''1__0'')) = None \<and>
   precision (parse_port (sample_field ''_1'' ''1_'')) = None \<and>
   scale (parse_port (sample_field ''_1'' ''1_'')) = None \<and>
   precision (parse_port (sample_field [CHR 0x1C, CHR ''3''] ''- 1'')) = None \<and>
   scale (parse_port (sample_field [CHR 0x1C, CHR ''3''] ''- 1'')) = None \<and>
   precision (parse_port (sample_field '' 12 '' ''1_000'')) = Some 12 \<and>
   scale (parse_port (sample_field '' 12 '' ''1_000'')) = Some 1000 \<and>
   precision (parse_port (sample_field ''-5'' ''+007'')) = Some (- 5) \<and>
   scale (parse_port (sample_field ''-5'' ''+007'')) = Some 7"
proof -
  have w0: "precision (parse_port (Elem ''TRANSFORMFIELD'' [(''NAME'', ''ID'')] [])) = None \<and>
   scale (parse_port (Elem ''TRANSFORMFIELD'' [(''NAME'', ''ID'')] [])) = None \<and>
   precision (parse_port
     (Elem ''TRANSFORMFIELD'' [(''PRECISION'', ''abc''), (''SCALE'', ''abc'')] [])) = None \<and>
   scale (parse_port
     (Elem ''TRANSFORMFIELD'' [(''PRECISION'', ''abc''), (''SCALE'', ''abc'')] [])) = None \<and>
   precision (parse_port
     (Elem ''TRANSFORMFIELD'' [(''PRECISION'', ''12''), (''SCALE'', ''12'')] [])) = Some 12 \<and>
   scale (parse_port
     (Elem ''TRANSFORMFIELD'' [(''PRECISION'', ''12''), (''SCALE'', ''12'')] [])) = Some 12 \<and>
   precision (parse_port
     (Elem ''TRANSFORMFIELD'' [(''PRECISION'', ''1.5''), (''SCALE'', ''two'')] [])) = None \<and>
   scale (parse_port
     (Elem ''TRANSFORMFIELD'' [(''PRECISION'', ''1.5''), (''SCALE'', ''two'')] [])) = None \<and>
   precision (parse_port
     (Elem ''TRANSFORMFIELD'' [(''PRECISION'', ''007''), (''SCALE'', ''40'')] [])) = Some 7 \<and>
   scale (parse_port
     (Elem ''TRANSFORMFIELD'' [(''PRECISION'', ''007''), (''SCALE'', ''40'')] [])) = Some 40"
    using
      port_precision_scale_best_effort [of "Elem ''TRANSFORMFIELD'' [(''NAME'', ''ID'')] []"]
      port_precision_scale_best_effort
        [of "Elem ''TRANSFORMFIELD'' [(''PRECISION'', ''abc''), (''SCALE'', ''abc'')] []"]
      port_precision_scale_best_effort
        [of "Elem ''TRANSFORMFIELD'' [(''PRECISION'', ''12''), (''SCALE'', ''12'')] []"]
      port_precision_scale_best_effort
        [of "Elem ''TRANSFORMFIELD'' [(''PRECISION'', ''1.5''), (''SCALE'', ''two'')] []"]
      port_precision_scale_best_effort
        [of "Elem ''TRANSFORMFIELD'' [(''PRECISION'', ''007''), (''SCALE'', ''40'')] []"]
    by (simp add: get_def non_numeric_def non_numeric_char_def is_digit_def is_space_def
          Let_def decimal_def digit_val_def)
  have w1: "precision (parse_port (sample_field '''' '' '')) = None \<and>
      scale (parse_port (sample_field '''' '' '')) = None"
    using port_precision_scale_best_effort [of "sample_field '''' '' ''"]
    by (simp add: sample_field_get not_integer_literals integer_literals literal_values)
  have w2: "precision (parse_port (sample_field ''+'' ''-'')) = None \<and>
      scale (parse_port (sample_field ''+'' ''-'')) = None"
    using port_precision_scale_best_effort [of "sample_field ''+'' ''-''"]
    by (simp add: sample_field_get not_integer_literals integer_literals literal_values)
  have w3: "precision (parse_port (sample_field ''1 2'' ''1__0'')) = None \<and>
      scale (parse_port (sample_field ''1 2'' ''1__0'')) = None"
    using port_precision_scale_best_effort [of "sample_field ''1 2'' ''1__0''"]
    by (simp add: sample_field_get not_integer_literals integer_literals literal_values)
  have w4: "precision (parse_port (sample_field ''_1'' ''1_'')) = None \<and>
      scale (parse_port (sample_field ''_1'' ''1_'')) = None"
    using port_precision_scale_best_effort [of "sample_field ''_1'' ''1_''"]
    by (simp add: sample_field_get not_integer_literals integer_literals literal_values)
  have w5: "precision (parse_port (sample_field [CHR 0x1C, CHR ''3''] ''- 1'')) = None \<and>
      scale (parse_port (sample_field [CHR 0x1C, CHR ''3''] ''- 1'')) = None"
    using port_precision_scale_best_effort [of "sample_field [CHR 0x1C, CHR ''3''] ''- 1''"]
    by (simp add: sample_field_get not_integer_literals integer_literals literal_values)
  have w6: "precision (parse_port (sample_field '' 12 '' ''1_000'')) = Some 12 \<and>
      scale (parse_port (sample_field '' 12 '' ''1_000'')) = Some 1000"
    using port_precision_scale_best_effort [of "sample_field '' 12 '' ''1_000''"]
    by (simp add: sample_field_get not_integer_literals integer_literals literal_values)
  have w7: "precision (parse_port (sample_field ''-5'' ''+007'')) = Some (- 5) \<and>
      scale (parse_port (sample_field ''-5'' ''+007'')) = Some 7"
    using port_precision_scale_best_effort [of "sample_field ''-5'' ''+007''"]
    by (simp add: sample_field_get not_integer_literals integer_literals literal_values)
  from w0 w1 w2 w3 w4 w5 w6 w7 show ?thesis by simp
qed

text \<open>
  C10. In every port the parser constructs, the name, the datatype, the nullability and the
  port type are strings: the value of the attribute \<^verbatim>\<open>NAME\<close>, \<^verbatim>\<open>DATATYPE\<close>, \<^verbatim>\<open>NULLABLE\<close>,
  \<^verbatim>\<open>PORTTYPE\<close> when the element has it, and \<^verbatim>\<open>Unknown\<close>, \<^verbatim>\<open>string\<close>, \<^verbatim>\<open>NOTNULL\<close>,
  \<^verbatim>\<open>INPUT\<close> when it is missing. The ports of a transformation element are these ports of
  all the \<^verbatim>\<open>TRANSFORMFIELD\<close> elements below it, one for each, whatever their attributes.
\<close>

theorem port_defaults:
  "(get e ''NAME'' = None \<longrightarrow> port.name (parse_port e) = ''Unknown'') \<and>
   (\<forall>v. get e ''NAME'' = Some v \<longrightarrow> port.name (parse_port e) = v) \<and>
   (get e ''DATATYPE'' = None \<longrightarrow> datatype (parse_port e) = ''string'') \<and>
   (\<forall>v. get e ''DATATYPE'' = Some v \<longrightarrow> datatype (parse_port e) = v) \<and>
   (get e ''NULLABLE'' = None \<longrightarrow> nullable (parse_port e) = ''NOTNULL'') \<and>
   (\<forall>v. get e ''NULLABLE'' = Some v \<longrightarrow> nullable (parse_port e) = v) \<and>
   (get e ''PORTTYPE'' = None \<longrightarrow> port_type (parse_port e) = ''INPUT'') \<and>
   (\<forall>v. get e ''PORTTYPE'' = Some v \<longrightarrow> port_type (parse_port e) = v) \<and>
   ports (parse_transformation t) =
     map parse_port (filter (\<lambda>x. tag x = ''TRANSFORMFIELD'') (descendants t)) \<and>
   length (ports (parse_transformation t)) = count_below ''TRANSFORMFIELD'' t"
  by (simp add: parse_port_def get_def get_default_def parse_transformation_def Let_def
        parse_ports_def findall_plain count_below_descendants)

theorem port_defaults_witness:
  "port.name (parse_port (Elem ''TRANSFORMFIELD'' [(''EXPRESSION'', ''a + b'')] [])) = ''Unknown'' \<and>
   datatype (parse_port (Elem ''TRANSFORMFIELD'' [(''EXPRESSION'', ''a + b'')] [])) = ''string'' \<and>
   nullable (parse_port (Elem ''TRANSFORMFIELD'' [(''EXPRESSION'', ''a + b'')] [])) = ''NOTNULL'' \<and>
   port_type (parse_port (Elem ''TRANSFORMFIELD'' [(''EXPRESSION'', ''a + b'')] [])) = ''INPUT'' \<and>
   port.name (parse_port (Elem ''TRANSFORMFIELD'' [(''NAME'', ''ID''), (''DATATYPE'', ''integer''),
     (''NULLABLE'', ''NULL''), (''PORTTYPE'', ''OUTPUT'')] [])) = ''ID'' \<and>
   datatype (parse_port (Elem ''TRANSFORMFIELD'' [(''NAME'', ''ID''), (''DATATYPE'', ''integer''),
     (''NULLABLE'', ''NULL''), (''PORTTYPE'', ''OUTPUT'')] [])) = ''integer'' \<and>
   nullable (parse_port (Elem ''TRANSFORMFIELD'' [(''NAME'', ''ID''), (''DATATYPE'', ''integer''),
     (''NULLABLE'', ''NULL''), (''PORTTYPE'', ''OUTPUT'')] [])) = ''NULL'' \<and>
   port_type (parse_port (Elem ''TRANSFORMFIELD'' [(''NAME'', ''ID''), (''DATATYPE'', ''integer''),
     (''NULLABLE'', ''NULL''), (''PORTTYPE'', ''OUTPUT'')] [])) = ''OUTPUT''"
  using
    port_defaults [of "Elem ''TRANSFORMFIELD'' [(''EXPRESSION'', ''a + b'')] []"]
    port_defaults [of "Elem ''TRANSFORMFIELD'' [(''NAME'', ''ID''), (''DATATYPE'', ''integer''),
      (''NULLABLE'', ''NULL''), (''PORTTYPE'', ''OUTPUT'')] []"]
  by (simp add: get_def)

text \<open>
  C5. The type of a transformation is the value of the \<^verbatim>\<open>TYPE\<close> attribute of its element
  looked up in \<^verbatim>\<open>TRANSFORMATION_TYPES\<close>: the table's entry when the value is a key of the
  table (\<^verbatim>\<open>Lookup Procedure\<close> becomes \<^verbatim>\<open>Lookup\<close>), the value itself when it is not
  (\<^verbatim>\<open>CustomStep\<close> stays \<^verbatim>\<open>CustomStep\<close>), and \<^verbatim>\<open>Unknown\<close> when the attribute is missing. The
  name is the value of \<^verbatim>\<open>NAME\<close>, and \<^verbatim>\<open>Unknown\<close> when that attribute is missing.
\<close>

theorem transformation_type_normalised:
  "(\<forall>ty c. get e ''TYPE'' = Some ty \<and> map_of TRANSFORMATION_TYPES ty = Some c \<longrightarrow>
      type (parse_transformation e) = c) \<and>
   (\<forall>ty. get e ''TYPE'' = Some ty \<and> map_of TRANSFORMATION_TYPES ty = None \<longrightarrow>
      type (parse_transformation e) = ty) \<and>
   (get e ''TYPE'' = Some ''Lookup Procedure'' \<longrightarrow> type (parse_transformation e) = ''Lookup'') \<and>
   (get e ''TYPE'' = Some ''CustomStep'' \<longrightarrow> type (parse_transformation e) = ''CustomStep'') \<and>
   (get e ''TYPE'' = None \<longrightarrow> type (parse_transformation e) = ''Unknown'') \<and>
   (get e ''NAME'' = None \<longrightarrow> transformation.name (parse_transformation e) = ''Unknown'') \<and>
   (\<forall>n. get e ''NAME'' = Some n \<longrightarrow> transformation.name (parse_transformation e) = n)"
  by (simp add: parse_transformation_def Let_def get_def get_default_def dict_get_def
        TRANSFORMATION_TYPES_def)

theorem transformation_type_normalised_witness:
  "type (parse_transformation
     (Elem ''TRANSFORMATION'' [(''TYPE'', ''Lookup Procedure''), (''NAME'', ''LKP'')] [])) = ''Lookup'' \<and>
   transformation.name (parse_transformation
     (Elem ''TRANSFORMATION'' [(''TYPE'', ''Lookup Procedure''), (''NAME'', ''LKP'')] [])) = ''LKP'' \<and>
   type (parse_transformation
     (Elem ''TRANSFORMATION'' [(''TYPE'', ''Sorter''), (''NAME'', ''SRT'')] [])) = ''Sorter'' \<and>
   type (parse_transformation
     (Elem ''TRANSFORMATION'' [(''TYPE'', ''CustomStep'')] [])) = ''CustomStep'' \<and>
   transformation.name (parse_transformation
     (Elem ''TRANSFORMATION'' [(''TYPE'', ''CustomStep'')] [])) = ''Unknown'' \<and>
   type (parse_transformation (Elem ''TRANSFORMATION'' [(''NAME'', ''X'')] [])) = ''Unknown''"
  using
    transformation_type_normalised
      [of "Elem ''TRANSFORMATION'' [(''TYPE'', ''Lookup Procedure''), (''NAME'', ''LKP'')] []"]
    transformation_type_normalised
      [of "Elem ''TRANSFORMATION'' [(''TYPE'', ''Sorter''), (''NAME'', ''SRT'')] []"]
    transformation_type_normalised
      [of "Elem ''TRANSFORMATION'' [(''TYPE'', ''CustomStep'')] []"]
    transformation_type_normalised [of "Elem ''TRANSFORMATION'' [(''NAME'', ''X'')] []"]
  by (simp add: get_def TRANSFORMATION_TYPES_def)

section \<open>Dictionaries as association lists\<close>

lemma map_of_replace:
  "map_of (map (\<lambda>(k', v'). if k' = k then (k', v) else (k', v')) d) x =
   (if x = k then (case map_of d k of None \<Rightarrow> None | Some _ \<Rightarrow> Some v) else map_of d x)"
proof (induction d)
  case Nil
  then show ?case by simp
next
  case (Cons a d)
  obtain k' v' where a: "a = (k', v')" by (cases a)
  show ?case using Cons.IH by (cases "x = k") (simp_all add: a)
qed

lemma map_of_dict_set: "map_of (dict_set k v d) = (map_of d)(k \<mapsto> v)"
proof (cases "k \<in> fst ` set d")
  case True
  then obtain w where w: "map_of d k = Some w"
    using map_of_eq_None_iff [of d k] by (cases "map_of d k") auto
  have "map_of (dict_set k v d) x = ((map_of d)(k \<mapsto> v)) x" for x
    using True w by (simp add: dict_set_def map_of_replace)
  then show ?thesis by (rule ext)
next
  case False
  then have n: "map_of d k = None" by (simp add: map_of_eq_None_iff)
  have "map_of (dict_set k v d) x = ((map_of d)(k \<mapsto> v)) x" for x
    using False n by (simp add: dict_set_def map_add_def split: option.splits)
  then show ?thesis by (rule ext)
qed

lemma keys_dict_set:
  "map fst (dict_set k v d) = (if k \<in> fst ` set d then map fst d else map fst d @ [k])"
  by (auto simp add: dict_set_def split: prod.splits)

lemma distinct_dict_set: "distinct (map fst d) \<Longrightarrow> distinct (map fst (dict_set k v d))"
  by (simp add: keys_dict_set)

lemma map_of_foldl_dict_set:
  "map_of (foldl (\<lambda>acc (k, v). dict_set k v acc) d xs) = map_of d ++ map_of (rev xs)"
proof (induction xs arbitrary: d)
  case Nil
  then show ?case by simp
next
  case (Cons x xs)
  obtain k v where x: "x = (k, v)" by (cases x)
  have "foldl (\<lambda>acc (k, v). dict_set k v acc) d (x # xs) =
        foldl (\<lambda>acc (k, v). dict_set k v acc) (dict_set k v d) xs"
    by (simp add: x)
  then have "map_of (foldl (\<lambda>acc (k, v). dict_set k v acc) d (x # xs)) =
        map_of (dict_set k v d) ++ map_of (rev xs)"
    by (simp only: Cons.IH)
  also have "\<dots> = (map_of d)(k \<mapsto> v) ++ map_of (rev xs)"
    by (simp only: map_of_dict_set)
  also have "\<dots> = map_of d ++ (map_of [(k, v)] ++ map_of (rev xs))"
  proof (rule ext)
    fix y
    show "((map_of d)(k \<mapsto> v) ++ map_of (rev xs)) y =
          (map_of d ++ (map_of [(k, v)] ++ map_of (rev xs))) y"
      by (simp add: map_add_def split: option.splits)
  qed
  also have "\<dots> = map_of d ++ map_of (rev (x # xs))"
    by (simp add: x)
  finally show ?case .
qed

lemma distinct_foldl_dict_set:
  "distinct (map fst d) \<Longrightarrow> distinct (map fst (foldl (\<lambda>acc (k, v). dict_set k v acc) d xs))"
  by (induction xs arbitrary: d) (auto simp add: distinct_dict_set)

lemma foldl_property_step:
  "foldl property_step d es =
   foldl (\<lambda>acc (k, v). dict_set k v acc) d (List.map_filter overlay_entry es)"
  by (induction es arbitrary: d)
     (auto simp add: property_step_def overlay_entry_def truthy_def Let_def map_filter_simps
        split: option.splits)

lemma parse_properties_eq:
  "parse_properties e =
   foldl (\<lambda>acc (k, v). dict_set k v acc) [] (attrib e @ property_pairs e)"
  by (simp add: parse_properties_def dict_update_def foldl_property_step property_pairs_def
        findall_plain)

lemma map_of_parse_properties:
  "map_of (parse_properties e) = map_of (rev (attrib e)) ++ map_of (rev (property_pairs e))"
  by (simp add: parse_properties_eq map_of_foldl_dict_set)

lemma map_of_last_entry:
  assumes "k \<notin> fst ` set qs"
  shows "map_of (rev (ps @ (k, v) # qs)) k = Some v"
proof -
  have "map_of (rev qs) k = None"
    using assms by (simp add: map_of_eq_None_iff)
  then show ?thesis by (simp add: map_add_def)
qed

lemma map_of_rev_distinct: "distinct (map fst xs) \<Longrightarrow> map_of (rev xs) = map_of xs"
proof (induction xs)
  case Nil
  then show ?case by simp
next
  case (Cons x xs)
  obtain k v where x: "x = (k, v)" by (cases x)
  have n: "map_of xs k = None"
    using Cons.prems by (simp add: x map_of_eq_None_iff)
  have "map_of (rev (x # xs)) y = map_of (x # xs) y" for y
    using Cons n by (simp add: x map_add_def split: option.splits)
  then show ?case by (rule ext)
qed

lemma properties_of_parse_transformation:
  "properties (parse_transformation e) = parse_properties e"
  by (simp add: parse_transformation_def Let_def)

section \<open>Claim about the properties of a transformation\<close>

text \<open>
  C6. For a transformation element (its attributes having distinct names, as in every
  parsed element), the properties of the transformation that the parser builds for it are,
  as a map, the attributes of the element overridden by the overlay: the name and value of
  every \<^verbatim>\<open>TABLEATTRIBUTE\<close> element below it that has both present and non-empty, the
  other such elements contributing nothing. A key that
  no overlay entry has keeps the value of the attribute; a key that overlay entries have
  gets the value of the last of them in document order, whatever the attribute and the
  earlier entries say. Each key occurs once.
\<close>

theorem properties_overlay:
  assumes "distinct (map fst (attrib e))"
  shows "map_of (properties (parse_transformation e)) =
      map_of (attrib e) ++ map_of (rev (property_pairs e)) \<and>
    distinct (map fst (properties (parse_transformation e))) \<and>
    (\<forall>k. k \<notin> fst ` set (property_pairs e) \<longrightarrow>
       map_of (properties (parse_transformation e)) k = map_of (attrib e) k) \<and>
    (\<forall>ps k v qs. property_pairs e = ps @ (k, v) # qs \<and> k \<notin> fst ` set qs \<longrightarrow>
       map_of (properties (parse_transformation e)) k = Some v)"
proof -
  have a: "map_of (rev (attrib e)) = map_of (attrib e)"
    using assms by (rule map_of_rev_distinct)
  have m: "map_of (parse_properties e) = map_of (attrib e) ++ map_of (rev (property_pairs e))"
    by (simp add: map_of_parse_properties a)
  have d: "distinct (map fst (parse_properties e))"
    by (simp add: parse_properties_eq distinct_foldl_dict_set)
  have n: "map_of (parse_properties e) k = map_of (attrib e) k"
    if "k \<notin> fst ` set (property_pairs e)" for k
  proof -
    have "map_of (rev (property_pairs e)) k = None"
      using that by (simp add: map_of_eq_None_iff)
    then show ?thesis by (simp add: m map_add_def)
  qed
  have l: "map_of (parse_properties e) k = Some v"
    if "property_pairs e = ps @ (k, v) # qs \<and> k \<notin> fst ` set qs" for ps k v qs
  proof -
    have "map_of (rev (property_pairs e)) k = Some v"
      using that map_of_last_entry [of k qs ps v] by simp
    then show ?thesis by (simp add: m map_add_def)
  qed
  show ?thesis unfolding properties_of_parse_transformation using m d n l by blast
qed

theorem properties_overlay_witness:
  "distinct (map fst (attrib sample_transformation)) \<and>
   property_pairs sample_transformation =
     [(''OWNER'', ''dwh''), (''OWNER'', ''ops''), (''Cache'', ''on'')] \<and>
   map_of (properties (parse_transformation sample_transformation)) ''NAME'' = Some ''SRC'' \<and>
   map_of (properties (parse_transformation sample_transformation)) ''OWNER'' = Some ''ops'' \<and>
   map_of (properties (parse_transformation sample_transformation)) ''Cache'' = Some ''on'' \<and>
   map_of (properties (parse_transformation sample_transformation)) ''Tracing'' = None \<and>
   distinct (map fst (properties (parse_transformation sample_transformation)))"
proof -
  have d: "distinct (map fst (attrib sample_transformation))"
    by (simp add: sample_transformation_def)
  have p: "property_pairs sample_transformation =
      [(''OWNER'', ''dwh''), (''OWNER'', ''ops''), (''Cache'', ''on'')]"
    by (simp add: sample_transformation_def property_pairs_def descendants_def
          overlay_entry_def get_def map_filter_simps)
  have a: "attrib sample_transformation = [(''NAME'', ''SRC''), (''OWNER'', ''etl'')]"
    by (simp add: sample_transformation_def)
  show ?thesis
    using d p properties_overlay [of sample_transformation]
    by (simp add: a)
qed

section \<open>Claim about the summary\<close>

lemma filter_two_le:
  "(\<And>x. \<not> (P x \<and> Q x)) \<Longrightarrow>
   length (filter P xs) + length (filter Q xs) \<le> length xs \<and>
   (length (filter P xs) + length (filter Q xs) = length xs \<longleftrightarrow> list_all (\<lambda>x. P x \<or> Q x) xs)"
proof (induction xs)
  case Nil
  then show ?case by simp
next
  case (Cons x xs)
  then show ?case by (cases "P x"; cases "Q x") auto
qed

text \<open>
  C7. In the summary of a mapping, the number of sources is the number of transformations
  whose type is exactly \<^verbatim>\<open>Source Definition\<close>, the number of targets the number of those
  whose type is exactly \<^verbatim>\<open>Target Definition\<close>, and the total the number of all
  transformations. Sources plus targets is at most the total, and equal to it exactly when
  every transformation has one of these two types.
\<close>

theorem summary_sources_targets:
  "sources (get_summary m) + targets (get_summary m) \<le> total_transformations (get_summary m) \<and>
   (sources (get_summary m) + targets (get_summary m) = total_transformations (get_summary m)
      \<longleftrightarrow> list_all (\<lambda>t. type t = ''Source Definition'' \<or> type t = ''Target Definition'')
            (transformations m)) \<and>
   sources (get_summary m) =
     length (filter (\<lambda>t. type t = ''Source Definition'') (transformations m)) \<and>
   targets (get_summary m) =
     length (filter (\<lambda>t. type t = ''Target Definition'') (transformations m)) \<and>
   total_transformations (get_summary m) = length (transformations m)"
  using filter_two_le [of "\<lambda>t. type t = ''Source Definition''"
      "\<lambda>t. type t = ''Target Definition''" "transformations m"]
  by (simp add: get_summary_def get_sources_def get_targets_def)

theorem summary_sources_targets_witness:
  "sources (get_summary sample_four) = 1 \<and> targets (get_summary sample_four) = 1 \<and>
   total_transformations (get_summary sample_four) = 4 \<and>
   \<not> list_all (\<lambda>t. type t = ''Source Definition'' \<or> type t = ''Target Definition'')
       (transformations sample_four)"
  using summary_sources_targets [of sample_four]
  by (simp add: sample_four_def sample_typed_def)

section \<open>Claim about repeated parsing\<close>

lemma parse_unreadable: "files (xml_path self) = Inl err \<Longrightarrow> parse files self = (Inl err, self)"
  by (simp add: parse_def)

lemma parse_same_path:
  assumes "xml_path self = xml_path self'"
    and "map_of (namespace self) [] = None" and "map_of (namespace self') [] = None"
  shows "fst (parse files self) = fst (parse files self')"
proof (cases "files (xml_path self)")
  case (Inl err)
  then show ?thesis using assms(1) by (simp add: parse_unreadable)
next
  case (Inr r)
  then show ?thesis
    using parse_characterised(1) [of files self r] parse_characterised(1) [of files self' r] assms
    by simp
qed

lemma parse_state_plain:
  assumes "map_of (namespace self) [] = None"
  shows "xml_path (snd (parse files self)) = xml_path self \<and>
         map_of (namespace (snd (parse files self))) [] = None"
proof (cases "files (xml_path self)")
  case (Inl err)
  then show ?thesis using assms by (simp add: parse_unreadable)
next
  case (Inr r)
  then show ?thesis
    using parse_characterised(2,3) [of files self r] assms by simp
qed

text \<open>
  C8. With the files unchanged, \<^verbatim>\<open>parse\<close> called a second time on the same parser object
  gives the result of the first call, and two parser objects for the same path give the
  same result: the same mapping, equal in every field, or the same error. This holds for
  the fresh parser and for every parser whose namespace map has no default namespace, which
  is every state that \<^verbatim>\<open>parse\<close> leaves.
\<close>

theorem parse_deterministic:
  "fst (parse files (snd (parse files (init path)))) = fst (parse files (init path)) \<and>
   (xml_path self = xml_path self' \<and> map_of (namespace self) [] = None \<and>
      map_of (namespace self') [] = None \<longrightarrow>
    fst (parse files self) = fst (parse files self') \<and>
    fst (parse files (snd (parse files self))) = fst (parse files self))"
proof -
  have twice: "fst (parse files (snd (parse files s))) = fst (parse files s)"
    if "map_of (namespace s) [] = None" for s
    using parse_state_plain [OF that, of files] that
    by (intro parse_same_path) simp_all
  show ?thesis
    using twice [of "init path"] twice [of self] parse_same_path [of self self' files]
    by (simp add: init_plain)
qed

theorem parse_deterministic_witness:
  "xml_path (init ''test.xml'') =
     xml_path ((init ''test.xml'')\<lparr> namespace := [(''ns'', ''http://x'')] \<rparr>) \<and>
   map_of (namespace (init ''test.xml'')) [] = None \<and>
   map_of (namespace ((init ''test.xml'')\<lparr> namespace := [(''ns'', ''http://x'')] \<rparr>)) [] = None \<and>
   fst (parse (one_file ''test.xml'' sample_document) (init ''test.xml'')) =
     fst (parse (one_file ''test.xml'' sample_document)
       ((init ''test.xml'')\<lparr> namespace := [(''ns'', ''http://x'')] \<rparr>)) \<and>
   fst (parse (one_file ''test.xml'' sample_document)
       (snd (parse (one_file ''test.xml'' sample_document) (init ''test.xml'')))) =
     fst (parse (one_file ''test.xml'' sample_document) (init ''test.xml''))"
  using parse_deterministic [of "one_file ''test.xml'' sample_document" "''test.xml''"
      "init ''test.xml''" "(init ''test.xml'')\<lparr> namespace := [(''ns'', ''http://x'')] \<rparr>"]
  by (simp add: init_def)

section \<open>Claim about the reporter\<close>

lemma str_of_nat_0: "str_of_nat 0 = ''0''"
  by code_simp

text \<open>
  C9. \<^verbatim>\<open>print_mapping_summary\<close> leaves the mapping object as it got it, with every
  transformation, port and connection in it, and only adds to standard output, the 24
  texts of the frame being printed whatever the lists hold. On a mapping with no
  transformations and no connections it returns normally, having printed the frame with
  all counts 0 and nothing else; \<^verbatim>\<open>get_summary\<close> of that mapping is the record of its
  name and folder with all counts 0 and no transformation counts.
\<close>

theorem report_leaves_mapping_unchanged:
  "fst (print_mapping_summary m out) = m \<and>
   take (length out) (snd (print_mapping_summary m out)) = out \<and>
   length out + 24 \<le> length (snd (print_mapping_summary m out)) \<and>
   snd (print_mapping_summary
          \<lparr> mapping.name = n, description = d, folder = f, transformations = [],
            connections = [] \<rparr> []) =
     [rule_line, ''MAPPING SUMMARY: '' @ n, rule_line,
      newline @ icon_folder @ '' Folder: '' @ str_of_option f,
      icon_total @ '' Total Transformations: 0'',
      icon_link @ '' Total Connections: 0'',
      icon_source @ '' Source Count: 0'',
      icon_target @ '' Target Count: 0'',
      newline @ rule_line, ''TRANSFORMATION BREAKDOWN'', rule_line,
      newline @ rule_line, ''SOURCE TRANSFORMATIONS'', rule_line,
      newline @ rule_line, ''TARGET TRANSFORMATIONS'', rule_line,
      newline @ rule_line, ''TRANSFORMATION DETAILS'', rule_line,
      newline @ rule_line, ''DATA FLOW (First 10 connections)'', rule_line,
      newline @ rule_line] \<and>
   get_summary \<lparr> mapping.name = n, description = d, folder = f, transformations = [],
       connections = [] \<rparr> =
     \<lparr> summary.name = n, folder = f, total_transformations = 0, total_connections = 0,
       sources = 0, targets = 0, transformation_counts = [] \<rparr>"
proof -
  have e: "get_summary \<lparr> mapping.name = n, description = d, folder = f, transformations = [],
       connections = [] \<rparr> =
     \<lparr> summary.name = n, folder = f, total_transformations = 0, total_connections = 0,
       sources = 0, targets = 0, transformation_counts = [] \<rparr>"
    by (simp add: get_summary_def get_sources_def get_targets_def get_transformation_counts_def)
  have p: "snd (print_mapping_summary
          \<lparr> mapping.name = n, description = d, folder = f, transformations = [],
            connections = [] \<rparr> []) =
     [rule_line, ''MAPPING SUMMARY: '' @ n, rule_line,
      newline @ icon_folder @ '' Folder: '' @ str_of_option f,
      icon_total @ '' Total Transformations: 0'',
      icon_link @ '' Total Connections: 0'',
      icon_source @ '' Source Count: 0'',
      icon_target @ '' Target Count: 0'',
      newline @ rule_line, ''TRANSFORMATION BREAKDOWN'', rule_line,
      newline @ rule_line, ''SOURCE TRANSFORMATIONS'', rule_line,
      newline @ rule_line, ''TARGET TRANSFORMATIONS'', rule_line,
      newline @ rule_line, ''TRANSFORMATION DETAILS'', rule_line,
      newline @ rule_line, ''DATA FLOW (First 10 connections)'', rule_line,
      newline @ rule_line]"
    unfolding print_mapping_summary_def e Let_def
    by (simp add: breakdown_lines_def flow_lines_def get_sources_def get_targets_def
          str_of_nat_0 enumerate_eq_zip)
  have u: "fst (print_mapping_summary m out) = m"
    by (simp add: print_mapping_summary_def Let_def)
  have t: "take (length out) (snd (print_mapping_summary m out)) = out"
    by (simp add: print_mapping_summary_def Let_def)
  have l: "length out + 24 \<le> length (snd (print_mapping_summary m out))"
    by (simp add: print_mapping_summary_def Let_def)
  show ?thesis using e p u t l by simp
qed

theorem report_leaves_mapping_unchanged_witness:
  "fst (print_mapping_summary sample_exported [''Parsing'']) = sample_exported \<and>
   take 1 (snd (print_mapping_summary sample_exported [''Parsing''])) = [''Parsing''] \<and>
   25 \<le> length (snd (print_mapping_summary sample_exported [''Parsing'']))"
  using report_leaves_mapping_unchanged [of sample_exported "[''Parsing'']"]
  by simp

section \<open>Claim about the exporter\<close>

lemma those_map_inverse:
  "(\<And>x. x \<in> set xs \<Longrightarrow> f (g x) = Some x) \<Longrightarrow> those (map f (map g xs)) = Some xs"
  by (induction xs) simp_all

lemma those_map_comp:
  "(\<And>x. x \<in> set xs \<Longrightarrow> f (g x) = Some x) \<Longrightarrow> those (map (f \<circ> g) xs) = Some xs"
  by (induction xs) simp_all

lemma read_port_data: "read_port (port_data p) = Some p"
  by (simp add: read_port_def port_data_def json_field_def as_string_def as_int_option_def
        as_string_option_def json_of_int_option_def json_of_string_option_def
        split: option.splits)

lemma read_connection_data: "read_connection (connection_data c) = Some c"
  by (simp add: read_connection_def connection_data_def json_field_def as_string_def)

lemma read_properties_data:
  "read_properties (JObject (map (\<lambda>(k, v). (k, JString v)) props)) = Some props"
proof -
  have "those (map (\<lambda>(k, v). map_option (Pair k) (as_string v))
          (map (\<lambda>(k, v). (k, JString v)) props)) = Some props"
    by (rule those_map_inverse) (simp add: as_string_def split: prod.splits)
  then show ?thesis by (simp add: read_properties_def)
qed

lemma read_transformation_data: "read_transformation (transformation_data t) = Some t"
proof -
  have "those (map (read_port \<circ> port_data) (ports t)) = Some (ports t)"
    by (rule those_map_comp) (rule read_port_data)
  then show ?thesis
    by (simp add: read_transformation_def transformation_data_def json_field_def as_string_def
          as_string_option_def json_of_string_option_def as_list_def read_properties_data
          split: option.splits)
qed

lemma read_export_data: "read_mapping (export_data m) = Some m"
proof -
  have t: "those (map (read_transformation \<circ> transformation_data) (transformations m))
           = Some (transformations m)"
    by (rule those_map_comp) (rule read_transformation_data)
  have c: "those (map (read_connection \<circ> connection_data) (connections m))
           = Some (connections m)"
    by (rule those_map_comp) (rule read_connection_data)
  show ?thesis
    by (simp add: read_mapping_def export_data_def json_field_def as_string_def
          as_string_option_def json_of_string_option_def as_list_def t c
          split: option.splits)
qed

lemma inj_export_data: "inj export_data"
proof (rule injI)
  fix m m' :: mapping
  assume "export_data m = export_data m'"
  then have "read_mapping (export_data m) = read_mapping (export_data m')" by simp
  then show "m = m'" by (simp add: read_export_data)
qed

text \<open>
  C3. When the output path can be opened, \<^verbatim>\<open>export_to_json\<close> returns normally and leaves
  under the path the document built from the mapping; reading that document back gives a
  mapping equal to the original in every field: name, description, folder, every
  transformation with its ports and properties, every connection. No two mappings are
  exported to the same document.
\<close>

theorem export_round_trip:
  assumes "writable w path"
  shows "fst (export_to_json m path w) = Inr () \<and>
         disk (snd (export_to_json m path w)) path = Some (export_data m) \<and>
         (disk (snd (export_to_json m path w)) path \<bind> read_mapping) = Some m \<and>
         inj export_data"
  using assms by (simp add: export_to_json_def Let_def read_export_data inj_export_data)

theorem export_round_trip_witness:
  "writable sample_world ''test_parsed.json'' \<and>
   fst (export_to_json sample_exported ''test_parsed.json'' sample_world) = Inr () \<and>
   (disk (snd (export_to_json sample_exported ''test_parsed.json'' sample_world))
      ''test_parsed.json'' \<bind> read_mapping) = Some sample_exported"
proof -
  have h: "writable sample_world ''test_parsed.json''"
    by (simp add: sample_world_def)
  show ?thesis
    using h export_round_trip [of sample_world "''test_parsed.json''" sample_exported]
    by blast
qed


end
